theory Spec2Isabelle
  imports Complex_Main "HOL-Library.Log_Nat"
begin

section \<open>JavaScript numbers\<close>

text \<open>
  A JavaScript number is an IEEE 754 binary64 value. The finite ones are carried by their
  exact rational value; \<open>Fin 0\<close> is the positive zero and \<open>NegZero\<close> the negative one.
  Every arithmetic result is rounded to the nearest representable value, ties to even.
\<close>

datatype jsnum = NaN | PosInf | NegInf | NegZero | Fin rat

text \<open>The binary exponent \<open>\<lfloor>log\<^sub>2 q\<rfloor>\<close> of a positive rational.\<close>

definition ilog2 :: "rat \<Rightarrow> int" where
  "ilog2 q = (let (a, b) = quotient_of q; d = bitlen a - bitlen b
              in if 2 powi d \<le> q then d else d - 1)"

text \<open>Rounding to the nearest integer, a tie going to the even neighbour.\<close>

definition rne :: "rat \<Rightarrow> int" where
  "rne x = (let f = \<lfloor>x\<rfloor>; d = x - of_int f
            in if d < 1 / 2 then f else if 1 / 2 < d then f + 1
               else if even f then f else f + 1)"

text \<open>
  Rounding of an exact result to binary64: 53 significant bits, the exponent no smaller
  than that of the subnormal numbers, overflow to an infinity, underflow to a signed zero.
\<close>

definition round64 :: "rat \<Rightarrow> jsnum" where
  "round64 q =
     (if q = 0 then Fin 0
      else let e = max (ilog2 \<bar>q\<bar>) (- 1022);
               u = 2 powi (e - 52);
               n = rne (\<bar>q\<bar> / u);
               r = of_int n * u
           in if 2 powi 1024 \<le> r then (if 0 < q then PosInf else NegInf)
              else if n = 0 then (if 0 < q then Fin 0 else NegZero)
              else Fin (if 0 < q then r else - r))"

fun val :: "jsnum \<Rightarrow> rat" where
  "val (Fin q) = q"
| "val _ = 0"

fun is_zero :: "jsnum \<Rightarrow> bool" where
  "is_zero (Fin q) = (q = 0)"
| "is_zero NegZero = True"
| "is_zero _ = False"

fun is_inf :: "jsnum \<Rightarrow> bool" where
  "is_inf PosInf = True"
| "is_inf NegInf = True"
| "is_inf _ = False"

fun negative :: "jsnum \<Rightarrow> bool" where
  "negative NegInf = True"
| "negative NegZero = True"
| "negative (Fin q) = (q < 0)"
| "negative _ = False"

definition zero_of :: "bool \<Rightarrow> jsnum" where
  "zero_of s = (if s then NegZero else Fin 0)"

definition inf_of :: "bool \<Rightarrow> jsnum" where
  "inf_of s = (if s then NegInf else PosInf)"

text \<open>The operator \<^verbatim>\<open>/\<close> on two numbers (ECMAScript Number::divide).\<close>

definition js_div :: "jsnum \<Rightarrow> jsnum \<Rightarrow> jsnum" where
  "js_div x y =
     (if x = NaN \<or> y = NaN then NaN
      else let s = (negative x \<noteq> negative y)
           in if is_inf x then (if is_inf y then NaN else inf_of s)
              else if is_inf y then zero_of s
              else if is_zero y then (if is_zero x then NaN else inf_of s)
              else if is_zero x then zero_of s
              else round64 (val x / val y))"

text \<open>The operator \<^verbatim>\<open>*\<close> on two numbers (ECMAScript Number::multiply).\<close>

definition js_mul :: "jsnum \<Rightarrow> jsnum \<Rightarrow> jsnum" where
  "js_mul x y =
     (if x = NaN \<or> y = NaN then NaN
      else let s = (negative x \<noteq> negative y)
           in if is_inf x \<or> is_inf y then (if is_zero x \<or> is_zero y then NaN else inf_of s)
              else if is_zero x \<or> is_zero y then zero_of s
              else round64 (val x * val y))"

text \<open>The operator \<^verbatim>\<open>></\<close> on two numbers: false when either is NaN, the two zeros equal.\<close>

definition js_gt :: "jsnum \<Rightarrow> jsnum \<Rightarrow> bool" where
  "js_gt x y =
     (if x = NaN \<or> y = NaN then False
      else if x = PosInf then y \<noteq> PosInf
      else if x = NegInf then False
      else if y = PosInf then False
      else if y = NegInf then True
      else val y < val x)"

text \<open>The operator \<^verbatim>\<open>==\<close> on two numbers.\<close>

definition js_eq :: "jsnum \<Rightarrow> jsnum \<Rightarrow> bool" where
  "js_eq x y =
     (if x = NaN \<or> y = NaN then False
      else if is_inf x \<or> is_inf y then x = y
      else val x = val y)"

text \<open>ToBoolean on a number: \<open>0\<close>, \<open>-0\<close> and \<open>NaN\<close> are falsy.\<close>

definition truthy :: "jsnum \<Rightarrow> bool" where
  "truthy x \<longleftrightarrow> \<not> (x = NaN \<or> is_zero x)"

text \<open>
  \<^verbatim>\<open>(p as number) || d\<close> for a configuration parameter \<open>p\<close> that may be absent
  (\<open>None\<close> is \<^verbatim>\<open>undefined\<close>).
\<close>

definition js_or :: "jsnum option \<Rightarrow> jsnum \<Rightarrow> jsnum" where
  "js_or p d = (case p of None \<Rightarrow> d | Some x \<Rightarrow> if truthy x then x else d)"

section \<open>Values returned by the collaborators\<close>

text \<open>
  What a query or \<^verbatim>\<open>unwrap\<close> can hand back at run time: the JSON values and
  \<^verbatim>\<open>undefined\<close>. The casts of the source (\<^verbatim>\<open>as number[]\<close>) check nothing.
\<close>

datatype jsval =
    JUndefined
  | JNull
  | JBool bool
  | JNum jsnum
  | JStr string
  | JArr "jsval list"
  | JObj "(string \<times> jsval) list"

fun typeof :: "jsval \<Rightarrow> string" where
  "typeof JUndefined = ''undefined''"
| "typeof JNull = ''object''"
| "typeof (JBool _) = ''boolean''"
| "typeof (JNum _) = ''number''"
| "typeof (JStr _) = ''string''"
| "typeof (JArr _) = ''object''"
| "typeof (JObj _) = ''object''"

text \<open>\<^verbatim>\<open>v == null\<close>: true of \<^verbatim>\<open>null\<close> and \<^verbatim>\<open>undefined\<close> only.\<close>

fun nullish :: "jsval \<Rightarrow> bool" where
  "nullish JUndefined = True"
| "nullish JNull = True"
| "nullish _ = False"

text \<open>
  ToNumber, applied by \<^verbatim>\<open>/\<close> to its left operand. A plain object converts through
  \<^verbatim>\<open>"[object Object]"\<close> to NaN. The conversion of a string, and of an array through
  its joined string, is the runtime's StringToNumber: the parameter \<open>coerce\<close>.
\<close>

fun ToNumber :: "(jsval \<Rightarrow> jsnum) \<Rightarrow> jsval \<Rightarrow> jsnum" where
  "ToNumber coerce JUndefined = NaN"
| "ToNumber coerce JNull = Fin 0"
| "ToNumber coerce (JBool b) = (if b then Fin 1 else Fin 0)"
| "ToNumber coerce (JNum n) = n"
| "ToNumber coerce (JStr s) = coerce (JStr s)"
| "ToNumber coerce (JArr xs) = coerce (JArr xs)"
| "ToNumber coerce (JObj kvs) = NaN"

section \<open>Data model\<close>

record OutcomeResult =
  subRuleRef :: string
  reason :: string

record Band = OutcomeResult +
  lowerLimit :: "jsnum option"
  upperLimit :: "jsnum option"

text \<open>
  The rule result: an object with at least \<open>subRuleRef\<close> and \<open>reason\<close>; whatever else
  the caller put into it is the extension \<open>'r\<close>.
\<close>

type_synonym 'r RuleResult = "'r OutcomeResult_scheme"

text \<open>The three parameters the rule reads, each cast \<^verbatim>\<open>as number\<close> by the source.\<close>

record Parameters =
  maxQueryRange :: "jsnum option"
  baselineQueryRange :: "jsnum option"
  surgeThresholdMultiplier :: "jsnum option"

record Config =
  bands :: "Band list option"
  exitConditions :: "OutcomeResult list option"
  parameters :: "Parameters option"

record RuleConfig =
  id' :: string
  cfg :: string
  config :: "Config option"

record DataCacheT =
  dbtrAcctId :: "string option"
  cdtrAcctId :: "string option"

record GroupHeader =
  MsgId :: string
  CreDtTm :: string

record TransactionInfoAndStatus =
  TxSts :: string

record FIToFIPaymentStatus =
  GrpHdr :: GroupHeader
  TxInfAndSts :: TransactionInfoAndStatus

record Pacs002 =
  FIToFIPmtSts :: FIToFIPaymentStatus

record RuleRequest =
  transaction :: Pacs002
  DataCache :: "DataCacheT option"

section \<open>Collaborators and effects\<close>

text \<open>
  A query built by the \<^verbatim>\<open>aql\<close> template: the count of the edges of
  \<^verbatim>\<open>transactionRelationship\<close> with \<^verbatim>\<open>_from == from_eq\<close>, \<^verbatim>\<open>TxTp == TxTp_eq\<close>,
  \<^verbatim>\<open>DATE_TIMESTAMP(now) - DATE_TIMESTAMP(CreDtTm) <= age_le\<close> and, when
  \<open>CreDtTm_le\<close> is given, \<^verbatim>\<open>CreDtTm <= CreDtTm_le\<close>.
\<close>

record AqlQuery =
  from_eq :: string
  TxTp_eq :: string
  now :: string
  age_le :: jsnum
  CreDtTm_le :: "string option"

text \<open>
  How an evaluation fails: with an \<^verbatim>\<open>Error\<close> thrown by the rule itself, carrying its
  message, or with whatever a collaborator raised (a rejected query, a throwing
  \<^verbatim>\<open>unwrap\<close>), which the rule does not catch. A collaborator answers \<open>Inl\<close> with the
  reason when it raises.
\<close>

datatype error = Error string | Rejected string

text \<open>
  The observable effects of one evaluation: the trace entries handed to the logger
  (message, context, message id) and the queries sent to the database, oldest first.
\<close>

record world =
  traces :: "(string \<times> string \<times> string) list"
  issued :: "AqlQuery list"

definition trace :: "string \<Rightarrow> string \<Rightarrow> string \<Rightarrow> world \<Rightarrow> world" where
  "trace msg ctx mid w = w\<lparr>traces := traces w @ [(msg, ctx, mid)]\<rparr>"

definition issue :: "AqlQuery \<Rightarrow> world \<Rightarrow> world" where
  "issue q w = w\<lparr>issued := issued w @ [q]\<rparr>"

text \<open>
  What the module imports from the library and the runtime: \<^verbatim>\<open>unwrap\<close>, which may
  throw, and the string conversion used by ToNumber.
\<close>

record runtime =
  unwrap :: "jsval \<Rightarrow> string + jsval"
  coerce :: "jsval \<Rightarrow> jsnum"

section \<open>The rule\<close>

text \<open>
  \<^verbatim>\<open>handleTransaction\<close> of \<^verbatim>\<open>src/rule-903.ts\<close>. The database manager is the
  function that answers \<^verbatim>\<open>_pseudonymsDb.query(q).batches.all()\<close>; the logger is the
  \<open>traces\<close> component of the world.
\<close>

definition handleTransaction ::
  "runtime \<Rightarrow> RuleRequest \<Rightarrow> (jsnum \<Rightarrow> RuleConfig \<Rightarrow> 'r RuleResult \<Rightarrow> 'r RuleResult) \<Rightarrow>
   'r RuleResult \<Rightarrow> RuleConfig option \<Rightarrow> (AqlQuery \<Rightarrow> string + jsval) \<Rightarrow> world \<Rightarrow>
   (error + 'r RuleResult) \<times> world" where
  "handleTransaction rt req determineOutcome ruleRes ruleConfig databaseManager w0 =
    (let context = ''Rule-'' @
           (case ruleConfig of
              None \<Rightarrow> ''<unresolved>''
            | Some rc \<Rightarrow> if id' rc \<noteq> [] then id' rc else ''<unresolved>'') @
           '' handleTransaction()'';
         msgId = MsgId (GrpHdr (FIToFIPmtSts (transaction req)));
         w1 = trace ''Start - handle transaction'' context msgId w0
     in
     case ruleConfig of
       None \<Rightarrow> (Inl (Error ''Invalid config provided - bands not provided or empty''), w1)
     | Some rc \<Rightarrow>
     (case config rc of
       None \<Rightarrow> (Inl (Error ''Invalid config provided - bands not provided or empty''), w1)
     | Some c \<Rightarrow>
     if (case bands c of None \<Rightarrow> True | Some bs \<Rightarrow> length bs = 0)
     then (Inl (Error ''Invalid config provided - bands not provided or empty''), w1)
     else
     (case exitConditions c of
       None \<Rightarrow> (Inl (Error ''Invalid config provided - exitConditions not provided''), w1)
     | Some ecs \<Rightarrow>
     (case parameters c of
       None \<Rightarrow> (Inl (Error ''Invalid config provided - parameters not provided''), w1)
     | Some ps \<Rightarrow>
     (case maxQueryRange ps of
       None \<Rightarrow> (Inl (Error ''Invalid config provided - maxQueryRange parameter not provided''), w1)
     | Some maxQueryRange' \<Rightarrow>
     if \<not> truthy maxQueryRange'
     then (Inl (Error ''Invalid config provided - maxQueryRange parameter not provided''), w1)
     else
     (case DataCache req of
       None \<Rightarrow> (Inl (Error ''Data Cache does not have required dbtrAcctId''), w1)
     | Some dc \<Rightarrow>
     if (case dbtrAcctId dc of None \<Rightarrow> True | Some d \<Rightarrow> d = [])
     then (Inl (Error ''Data Cache does not have required dbtrAcctId''), w1)
     else
     let w2 = trace ''Step 1 - Early exit conditions'' context msgId w1;
         UnsuccessfulTransaction = find (\<lambda>b. subRuleRef b = ''.x00'') ecs
     in
     if TxSts (TxInfAndSts (FIToFIPmtSts (transaction req))) \<noteq> ''ACCC''
     then
       (case UnsuccessfulTransaction of
          None \<Rightarrow> (Inl (Error ''Unsuccessful transaction and no exit condition in config''), w2)
        | Some u \<Rightarrow> (Inr (ruleRes\<lparr>reason := reason u, subRuleRef := subRuleRef u\<rparr>), w2))
     else
     let w3 = trace ''Step 2 - Query setup for creditor'' context msgId w2;
         currentPacs002TimeFrame = CreDtTm (GrpHdr (FIToFIPmtSts (transaction req)));
         creditorAccountId = ''accounts/'' @
           (case cdtrAcctId dc of None \<Rightarrow> ''undefined'' | Some a \<Rightarrow> a);
         baselineQueryRange' = js_or (baselineQueryRange ps) (js_mul maxQueryRange' (Fin 5));
         w4 = trace ''Step 3 - Baseline query setup for creditor'' context msgId
                (trace ''Step 3 - Baseline query setup for creditor'' context msgId w3);
         baselineQueryString =
           \<lparr>from_eq = creditorAccountId, TxTp_eq = ''pacs.002.001.12'',
            now = currentPacs002TimeFrame, age_le = baselineQueryRange', CreDtTm_le = None\<rparr>;
         w5 = issue baselineQueryString w4
     in
     (case databaseManager baselineQueryString of
       Inl e \<Rightarrow> (Inl (Rejected e), w5)
     | Inr baselineTransactions \<Rightarrow>
     (case baselineTransactions of
       JArr (raw # _) \<Rightarrow>
         let baselineCount =
               JNum (js_div (ToNumber (coerce rt) raw) (js_div baselineQueryRange' maxQueryRange'))
         in
         if nullish baselineCount \<or> typeof baselineCount \<noteq> ''number''
         then (Inl (Error ''Data error: invalid baseline count type or null value.''), w5)
         else
         let w6 = trace ''Step 4 - Query for current transactions for creditor'' context msgId w5;
             queryString =
               \<lparr>from_eq = creditorAccountId, TxTp_eq = ''pacs.002.001.12'',
                now = currentPacs002TimeFrame, age_le = maxQueryRange',
                CreDtTm_le = Some currentPacs002TimeFrame\<rparr>;
             w7 = issue queryString w6
         in
         (case databaseManager queryString of
           Inl e \<Rightarrow> (Inl (Rejected e), w7)
         | Inr numberOfRecentTransactions \<Rightarrow>
         (case unwrap rt numberOfRecentTransactions of
           Inl e \<Rightarrow> (Inl (Rejected e), w7)
         | Inr count \<Rightarrow>
           if nullish count
           then (Inl (Error ''Data error: irretrievable transaction history''), w7)
           else
           (case count of
             JNum count' \<Rightarrow>
               let surgeThresholdMultiplier' = js_or (surgeThresholdMultiplier ps) (Fin 2);
                   isSurge = js_gt count'
                     (js_mul (ToNumber (coerce rt) baselineCount) surgeThresholdMultiplier');
                   w8 = trace ''End - handle transaction'' context msgId w7
               in
               if isSurge then (Inr (determineOutcome (Fin 1) rc ruleRes), w8)
               else (Inr (determineOutcome (Fin 0) rc ruleRes), w8)
           | _ \<Rightarrow>
               (Inl (Error ''Data error: query result type mismatch - expected a number''), w7))))
     | _ \<Rightarrow>
         (Inl (Error
            ''Data error: irretrievable baseline transaction history or no transactions found.''),
          w5)))))))))"

section \<open>Vocabulary of the properties\<close>

subsection \<open>The guard clauses\<close>

text \<open>
  What the optional chains of the guard clauses read: \<^verbatim>\<open>ruleConfig?.config?.bands\<close> and
  its siblings, \<open>None\<close> when any link is absent.
\<close>

definition config_of :: "RuleConfig option \<Rightarrow> Config option" where
  "config_of ruleConfig = Option.bind ruleConfig config"

definition bands_of :: "RuleConfig option \<Rightarrow> Band list option" where
  "bands_of ruleConfig = Option.bind (config_of ruleConfig) bands"

definition exitConditions_of :: "RuleConfig option \<Rightarrow> OutcomeResult list option" where
  "exitConditions_of ruleConfig = Option.bind (config_of ruleConfig) exitConditions"

definition parameters_of :: "RuleConfig option \<Rightarrow> Parameters option" where
  "parameters_of ruleConfig = Option.bind (config_of ruleConfig) parameters"

definition maxQueryRange_of :: "RuleConfig option \<Rightarrow> jsnum option" where
  "maxQueryRange_of ruleConfig = Option.bind (parameters_of ruleConfig) maxQueryRange"

definition dbtrAcctId_of :: "RuleRequest \<Rightarrow> string option" where
  "dbtrAcctId_of req = Option.bind (DataCache req) dbtrAcctId"

text \<open>The bands are missing or empty.\<close>

definition no_bands :: "RuleConfig option \<Rightarrow> bool" where
  "no_bands ruleConfig \<longleftrightarrow> (case bands_of ruleConfig of None \<Rightarrow> True | Some bs \<Rightarrow> bs = [])"

text \<open>\<open>maxQueryRange\<close> is missing, zero or NaN.\<close>

definition no_maxQueryRange :: "RuleConfig option \<Rightarrow> bool" where
  "no_maxQueryRange ruleConfig \<longleftrightarrow>
     (case maxQueryRange_of ruleConfig of None \<Rightarrow> True | Some m \<Rightarrow> m = NaN \<or> is_zero m)"

text \<open>\<open>dbtrAcctId\<close> is missing or the empty string.\<close>

definition no_dbtrAcctId :: "RuleRequest \<Rightarrow> bool" where
  "no_dbtrAcctId req \<longleftrightarrow> (case dbtrAcctId_of req of None \<Rightarrow> True | Some d \<Rightarrow> d = [])"

text \<open>
  All five guard clauses pass; \<open>rc\<close>, \<open>ecs\<close>, \<open>ps\<close>, \<open>M\<close> and \<open>dc\<close> name the rule
  configuration, its exit conditions, its parameters, its \<open>maxQueryRange\<close> and the data
  cache of the request.
\<close>

definition guards_pass ::
  "RuleConfig option \<Rightarrow> RuleRequest \<Rightarrow> RuleConfig \<Rightarrow> OutcomeResult list \<Rightarrow> Parameters \<Rightarrow>
   jsnum \<Rightarrow> DataCacheT \<Rightarrow> bool" where
  "guards_pass ruleConfig req rc ecs ps M dc \<longleftrightarrow>
     ruleConfig = Some rc \<and> \<not> no_bands ruleConfig \<and>
     exitConditions_of ruleConfig = Some ecs \<and>
     parameters_of ruleConfig = Some ps \<and>
     maxQueryRange ps = Some M \<and> \<not> no_maxQueryRange ruleConfig \<and>
     DataCache req = Some dc \<and> \<not> no_dbtrAcctId req"

text \<open>The transaction status is the accepted code.\<close>

definition accepted :: "RuleRequest \<Rightarrow> bool" where
  "accepted req \<longleftrightarrow> TxSts (TxInfAndSts (FIToFIPmtSts (transaction req))) = ''ACCC''"

subsection \<open>The two queries and the baseline\<close>

text \<open>The baseline query over a window \<open>B\<close> and the current-window query over \<open>M\<close>.\<close>

definition baseline_query :: "RuleRequest \<Rightarrow> DataCacheT \<Rightarrow> jsnum \<Rightarrow> AqlQuery" where
  "baseline_query req dc B =
     \<lparr>from_eq = ''accounts/'' @ (case cdtrAcctId dc of None \<Rightarrow> ''undefined'' | Some a \<Rightarrow> a),
      TxTp_eq = ''pacs.002.001.12'',
      now = CreDtTm (GrpHdr (FIToFIPmtSts (transaction req))),
      age_le = B, CreDtTm_le = None\<rparr>"

definition current_query :: "RuleRequest \<Rightarrow> DataCacheT \<Rightarrow> jsnum \<Rightarrow> AqlQuery" where
  "current_query req dc M =
     \<lparr>from_eq = ''accounts/'' @ (case cdtrAcctId dc of None \<Rightarrow> ''undefined'' | Some a \<Rightarrow> a),
      TxTp_eq = ''pacs.002.001.12'',
      now = CreDtTm (GrpHdr (FIToFIPmtSts (transaction req))),
      age_le = M, CreDtTm_le = Some (CreDtTm (GrpHdr (FIToFIPmtSts (transaction req))))\<rparr>"

text \<open>The baseline count of line 77, for a raw aggregate and the two windows.\<close>

definition baseline_count :: "runtime \<Rightarrow> jsval \<Rightarrow> jsnum \<Rightarrow> jsnum \<Rightarrow> jsnum" where
  "baseline_count rt raw B M = js_div (ToNumber (coerce rt) raw) (js_div B M)"

text \<open>
  The defaults as the specification words them: the baseline window is the configured
  one unless it is absent or falsy, then five times \<open>maxQueryRange\<close>; the multiplier is
  the configured one unless it is absent or falsy, then 2.
\<close>

definition spec_baseline_window :: "Parameters \<Rightarrow> jsnum \<Rightarrow> jsnum" where
  "spec_baseline_window ps M =
     (case baselineQueryRange ps of
        None \<Rightarrow> js_mul M (Fin 5)
      | Some b \<Rightarrow> if b = NaN \<or> b = Fin 0 \<or> b = NegZero then js_mul M (Fin 5) else b)"

definition spec_multiplier :: "Parameters \<Rightarrow> jsnum" where
  "spec_multiplier ps =
     (case surgeThresholdMultiplier ps of
        None \<Rightarrow> Fin 2
      | Some k \<Rightarrow> if k = NaN \<or> k = Fin 0 \<or> k = NegZero then Fin 2 else k)"

subsection \<open>Representable numbers and exact quotients\<close>

text \<open>A value of \<open>jsnum\<close> that a binary64 can hold: rounding leaves it as it is.\<close>

definition is_double :: "jsnum \<Rightarrow> bool" where
  "is_double x \<longleftrightarrow> (case x of Fin q \<Rightarrow> round64 q = Fin q | _ \<Rightarrow> True)"

text \<open>The quotient of two finite numbers is computed without rounding.\<close>

definition exact_quotient :: "rat \<Rightarrow> rat \<Rightarrow> bool" where
  "exact_quotient a b \<longleftrightarrow> a \<noteq> 0 \<and> b \<noteq> 0 \<and> round64 (a / b) = Fin (a / b)"

text \<open>
  Both divisions of the baseline count are exact for the raw aggregate \<open>r\<close> and the
  windows \<open>b\<close> and \<open>m\<close>.
\<close>

definition exact_baseline :: "rat \<Rightarrow> rat \<Rightarrow> rat \<Rightarrow> bool" where
  "exact_baseline r b m \<longleftrightarrow> exact_quotient b m \<and> exact_quotient r (b / m)"

text \<open>
  The quotient of \<open>a\<close> by \<open>b\<close> lies in the normal range of binary64: its rounding
  neither underflows nor overflows.
\<close>

definition normal_quotient :: "rat \<Rightarrow> rat \<Rightarrow> bool" where
  "normal_quotient a b \<longleftrightarrow> b \<noteq> 0 \<and> 2 powi (- 1022) \<le> \<bar>a / b\<bar> \<and> \<bar>a / b\<bar> < 2 powi 1023"

text \<open>
  Both divisions of the baseline count stay in the normal range, the second one taken on
  the rounded ratio of the windows.
\<close>

definition normal_baseline :: "rat \<Rightarrow> rat \<Rightarrow> rat \<Rightarrow> bool" where
  "normal_baseline r b m \<longleftrightarrow>
     normal_quotient b m \<and> normal_quotient r (val (js_div (Fin b) (Fin m)))"

subsection \<open>Example inputs\<close>

definition ex_bands :: "Band list" where
  "ex_bands =
     [\<lparr>subRuleRef = ''.01'', reason = ''No surge'', lowerLimit = None, upperLimit = Some (Fin 1)\<rparr>,
      \<lparr>subRuleRef = ''.02'', reason = ''Surge'', lowerLimit = Some (Fin 1), upperLimit = None\<rparr>]"

definition ex_exits :: "OutcomeResult list" where
  "ex_exits = [\<lparr>subRuleRef = ''.x00'', reason = ''Unsuccessful''\<rparr>]"

definition ex_parameters :: "jsnum option \<Rightarrow> jsnum option \<Rightarrow> jsnum option \<Rightarrow> Parameters" where
  "ex_parameters M B K =
     \<lparr>maxQueryRange = M, baselineQueryRange = B, surgeThresholdMultiplier = K\<rparr>"

definition ex_ruleConfig ::
  "Band list option \<Rightarrow> OutcomeResult list option \<Rightarrow> Parameters option \<Rightarrow> RuleConfig" where
  "ex_ruleConfig bs ecs ps =
     \<lparr>id' = ''903@1.0.0'', cfg = ''1.0.0'',
      config = Some \<lparr>bands = bs, exitConditions = ecs, parameters = ps\<rparr>\<rparr>"

definition ex_dataCache :: "string \<Rightarrow> DataCacheT" where
  "ex_dataCache d = \<lparr>dbtrAcctId = Some d, cdtrAcctId = Some ''cdtrAcct_1''\<rparr>"

definition ex_request :: "string \<Rightarrow> DataCacheT option \<Rightarrow> RuleRequest" where
  "ex_request sts dc =
     \<lparr>transaction =
        \<lparr>FIToFIPmtSts =
           \<lparr>GrpHdr = \<lparr>MsgId = ''msg-1'', CreDtTm = ''2024-01-01T00:00:00.000Z''\<rparr>,
            TxInfAndSts = \<lparr>TxSts = sts\<rparr>\<rparr>\<rparr>,
      DataCache = dc\<rparr>"

text \<open>A database that answers the baseline query with \<open>b\<close> and the current one with \<open>c\<close>.\<close>

definition ex_db :: "jsval \<Rightarrow> jsval \<Rightarrow> AqlQuery \<Rightarrow> string + jsval" where
  "ex_db b c q = (if CreDtTm_le q = None then Inr b else Inr c)"

text \<open>
  A runtime whose \<^verbatim>\<open>unwrap\<close> takes the first element of the first batch, and
  \<^verbatim>\<open>undefined\<close> when there is none.
\<close>

definition ex_unwrap :: "jsval \<Rightarrow> string + jsval" where
  "ex_unwrap v = (case v of JArr (JArr (x # _) # _) \<Rightarrow> Inr x | _ \<Rightarrow> Inr JUndefined)"

definition ex_runtime :: runtime where
  "ex_runtime = \<lparr>unwrap = ex_unwrap, coerce = (\<lambda>v. NaN)\<rparr>"

text \<open>An outcome resolver that picks the band of the score.\<close>

definition ex_determineOutcome :: "jsnum \<Rightarrow> RuleConfig \<Rightarrow> OutcomeResult \<Rightarrow> OutcomeResult" where
  "ex_determineOutcome score rc res =
     (if score = Fin 1 then res\<lparr>reason := ''Surge'', subRuleRef := ''.02''\<rparr>
      else res\<lparr>reason := ''No surge'', subRuleRef := ''.01''\<rparr>)"

definition ex_ruleRes :: OutcomeResult where
  "ex_ruleRes = \<lparr>subRuleRef = ''.00'', reason = ''none''\<rparr>"

definition w_init :: world where
  "w_init = \<lparr>traces = [], issued = []\<rparr>"

text \<open>
  The configuration of the specification's scenarios: \<open>maxQueryRange\<close> 3600, no
  \<open>baselineQueryRange\<close>, no multiplier; the baseline query answers 50.
\<close>

definition scenario_parameters :: Parameters where
  "scenario_parameters = ex_parameters (Some (Fin 3600)) None None"

definition scenario_ruleConfig :: RuleConfig where
  "scenario_ruleConfig = ex_ruleConfig (Some ex_bands) (Some ex_exits) (Some scenario_parameters)"

definition scenario_request :: "string \<Rightarrow> RuleRequest" where
  "scenario_request sts = ex_request sts (Some (ex_dataCache ''dbtrAcct_1''))"

definition scenario_db :: "jsval \<Rightarrow> AqlQuery \<Rightarrow> string + jsval" where
  "scenario_db count = ex_db (JArr [JNum (Fin 50)]) (JArr [JArr [count]])"

text \<open>
  A configuration whose baseline window is the smallest positive double, \<open>2\<^sup>-\<^sup>1\<^sup>0\<^sup>7\<^sup>4\<close>
  (written \<^verbatim>\<open>5e-324\<close>), against a \<open>maxQueryRange\<close> of 2.
\<close>

definition underflow_parameters :: Parameters where
  "underflow_parameters = ex_parameters (Some (Fin 2)) (Some (Fin (2 powi (- 1074)))) None"

definition underflow_ruleConfig :: RuleConfig where
  "underflow_ruleConfig = ex_ruleConfig (Some ex_bands) (Some ex_exits) (Some underflow_parameters)"

text \<open>The scenario's configuration with the baseline window 18000 written out.\<close>

definition configured_parameters :: Parameters where
  "configured_parameters = ex_parameters (Some (Fin 3600)) (Some (Fin 18000)) None"

definition configured_ruleConfig :: RuleConfig where
  "configured_ruleConfig =
     ex_ruleConfig (Some ex_bands) (Some ex_exits) (Some configured_parameters)"

text \<open>
  A \<open>maxQueryRange\<close> of 10 with a baseline window of 31 and a raw baseline of 93, both
  scaled by \<open>k\<close>; the current count is 60.
\<close>

definition scaling_parameters :: "rat \<Rightarrow> Parameters" where
  "scaling_parameters k = ex_parameters (Some (Fin 10)) (Some (Fin (k * 31))) None"

definition scaling_ruleConfig :: "rat \<Rightarrow> RuleConfig" where
  "scaling_ruleConfig k =
     ex_ruleConfig (Some ex_bands) (Some ex_exits) (Some (scaling_parameters k))"

definition scaling_db :: "rat \<Rightarrow> AqlQuery \<Rightarrow> string + jsval" where
  "scaling_db k = ex_db (JArr [JNum (Fin (k * 93))]) (JArr [JArr [JNum (Fin 60)]])"

section \<open>Facts about the number model\<close>

subsection \<open>The binary exponent\<close>

lemma bitlen_powi_bounds:
  assumes "0 < a"
  shows "(2::rat) powi (bitlen a - 1) \<le> of_int a" and "of_int a < (2::rat) powi bitlen a"
proof -
  from assms have b1: "1 \<le> bitlen a"
    using bitlen_eq_zero_iff [of a] bitlen_nonneg [of a] by linarith
  have lo: "2 ^ nat (bitlen a - 1) \<le> a" and hi: "a < 2 ^ nat (bitlen a)"
    using bitlen_bounds [OF assms] by simp_all
  have "(2::rat) powi (bitlen a - 1) = of_int (2 ^ nat (bitlen a - 1))"
    using b1 by (simp add: power_int_def)
  also have "\<dots> \<le> of_int a" using lo by (simp only: of_int_le_iff)
  finally show "(2::rat) powi (bitlen a - 1) \<le> of_int a" .
  have "(of_int a :: rat) < of_int (2 ^ nat (bitlen a))" using hi by (simp only: of_int_less_iff)
  also have "\<dots> = 2 powi bitlen a" using b1 by (simp add: power_int_def)
  finally show "of_int a < (2::rat) powi bitlen a" .
qed

lemma ilog2_bounds:
  assumes "0 < q"
  shows "2 powi ilog2 q \<le> q" and "q < 2 powi (ilog2 q + 1)"
proof -
  obtain a b where ab: "quotient_of q = (a, b)" by (cases "quotient_of q")
  have bpos: "0 < b" using ab by (rule quotient_of_denom_pos)
  have q: "q = of_int a / of_int b" using ab by (rule quotient_of_div)
  have apos: "0 < a" using assms bpos unfolding q by (simp add: zero_less_divide_iff)
  define d where "d = bitlen a - bitlen b"
  have rb: "(0::rat) < of_int b" using bpos by simp
  have lo: "2 powi (d - 1) < q"
  proof -
    have "(2::rat) powi (d - 1) * of_int b < 2 powi (d - 1) * 2 powi bitlen b"
      using bitlen_powi_bounds(2) [OF bpos] by simp
    also have "\<dots> = 2 powi (bitlen a - 1)"
      by (simp add: d_def power_int_add [symmetric])
    also have "\<dots> \<le> of_int a" by (rule bitlen_powi_bounds(1) [OF apos])
    finally show ?thesis unfolding q using rb by (simp add: pos_less_divide_eq)
  qed
  have hi: "q < 2 powi (d + 1)"
  proof -
    have "(of_int a :: rat) < 2 powi bitlen a" by (rule bitlen_powi_bounds(2) [OF apos])
    also have "\<dots> = 2 powi (d + 1) * 2 powi (bitlen b - 1)"
      by (simp add: d_def power_int_add [symmetric])
    also have "\<dots> \<le> 2 powi (d + 1) * of_int b"
      using bitlen_powi_bounds(1) [OF bpos] by simp
    finally show ?thesis unfolding q using rb by (simp add: pos_divide_less_eq)
  qed
  have il: "ilog2 q = (if 2 powi d \<le> q then d else d - 1)"
    by (simp add: ilog2_def ab d_def Let_def)
  show "2 powi ilog2 q \<le> q" using lo by (simp add: il)
  show "q < 2 powi (ilog2 q + 1)" using hi by (simp add: il)
qed

lemma ilog2_unique:
  assumes "2 powi e \<le> q" and "q < 2 powi (e + 1)"
  shows "ilog2 q = e"
proof -
  have qpos: "0 < q" using assms(1) by (rule less_le_trans [rotated]) simp
  note b = ilog2_bounds [OF qpos]
  have "\<not> ilog2 q < e"
  proof
    assume "ilog2 q < e"
    then have "(2::rat) powi (ilog2 q + 1) \<le> 2 powi e" by (intro power_int_increasing) simp_all
    with b(2) assms(1) show False by simp
  qed
  moreover have "\<not> e < ilog2 q"
  proof
    assume "e < ilog2 q"
    then have "(2::rat) powi (e + 1) \<le> 2 powi ilog2 q" by (intro power_int_increasing) simp_all
    with b(1) assms(2) show False by simp
  qed
  ultimately show ?thesis by simp
qed

subsection \<open>Rounding to the nearest integer\<close>

lemma rne_unique:
  assumes "\<bar>x - of_int n\<bar> < 1 / 2"
  shows "rne x = n"
proof -
  consider "of_int n \<le> x" | "x < of_int n" by linarith
  then show ?thesis
  proof cases
    case 1
    with assms have "\<lfloor>x\<rfloor> = n" by (intro floor_unique) linarith+
    with assms 1 show ?thesis by (simp add: rne_def Let_def)
  next
    case 2
    have n1: "(of_int (n - 1) :: rat) = of_int n - 1" by simp
    have "of_int (n - 1) \<le> x" using assms 2 unfolding n1 by linarith
    moreover have "x < of_int (n - 1) + 1" using assms 2 unfolding n1 by linarith
    ultimately have f: "\<lfloor>x\<rfloor> = n - 1" by (rule floor_unique)
    have "1 / 2 < x - of_int (n - 1)" using assms 2 unfolding n1 by linarith
    with f show ?thesis by (simp add: rne_def Let_def)
  qed
qed

lemma rne_choice: "rne x = \<lfloor>x\<rfloor> \<or> rne x = \<lfloor>x\<rfloor> + 1"
  by (simp add: rne_def Let_def)

lemma rne_zero_iff:
  assumes "0 \<le> x"
  shows "rne x = 0 \<longleftrightarrow> x \<le> 1 / 2"
proof
  assume r: "rne x = 0"
  show "x \<le> 1 / 2"
  proof (rule ccontr)
    assume "\<not> x \<le> 1 / 2"
    then have h: "1 / 2 < x" by simp
    have f0: "0 \<le> \<lfloor>x\<rfloor>" using assms by simp
    with r rne_choice [of x] have fl: "\<lfloor>x\<rfloor> = 0" by linarith
    with r h show False
      by (simp add: rne_def Let_def split: if_splits)
  qed
next
  assume h: "x \<le> 1 / 2"
  with assms have "\<lfloor>x\<rfloor> = 0" by (intro floor_unique) simp_all
  with h show "rne x = 0" by (simp add: rne_def Let_def)
qed

lemma rne_nonneg:
  assumes "0 \<le> x"
  shows "0 \<le> rne x"
proof -
  have "0 \<le> \<lfloor>x\<rfloor>" using assms by simp
  with rne_choice [of x] show ?thesis by linarith
qed

lemma rne_upper: "x \<le> of_int (rne x) + 1 / 2"
proof -
  have a: "x < of_int \<lfloor>x\<rfloor> + 1" by linarith
  show ?thesis
  proof (cases "x - of_int \<lfloor>x\<rfloor> < 1 / 2")
    case True
    then have "rne x = \<lfloor>x\<rfloor>" by (simp add: rne_def Let_def)
    with True show ?thesis by simp
  next
    case False
    then have "rne x = \<lfloor>x\<rfloor> \<and> x - of_int \<lfloor>x\<rfloor> = 1 / 2 \<or> rne x = \<lfloor>x\<rfloor> + 1"
      by (simp add: rne_def Let_def)
    with a show ?thesis by (elim disjE conjE) simp_all
  qed
qed

subsection \<open>Rounding to binary64\<close>

lemma round64_unfold:
  assumes "q \<noteq> 0" and "e = max (ilog2 \<bar>q\<bar>) (- 1022)" and "n = rne (\<bar>q\<bar> / 2 powi (e - 52))"
  shows "round64 q =
    (if 2 powi 1024 \<le> of_int n * (2::rat) powi (e - 52) then (if 0 < q then PosInf else NegInf)
     else if n = 0 then (if 0 < q then Fin 0 else NegZero)
     else Fin (if 0 < q then of_int n * 2 powi (e - 52) else - (of_int n * 2 powi (e - 52))))"
  using assms by (simp add: round64_def Let_def)

lemma round64_not_NaN: "round64 q \<noteq> NaN"
  by (simp add: round64_def Let_def)

text \<open>
  A certificate for a rounding: the exponent \<open>e\<close> and the significand \<open>n\<close> are given,
  and checking them takes comparisons of rationals only.
\<close>

lemma round64_cert:
  assumes q: "q \<noteq> 0"
    and lo: "2 powi e \<le> \<bar>q\<bar>" and hi: "\<bar>q\<bar> < 2 powi (e + 1)" and e: "- 1022 \<le> e"
    and n: "\<bar>\<bar>q\<bar> / 2 powi (e - 52) - of_int n\<bar> < 1 / 2"
    and fin: "of_int n * (2::rat) powi (e - 52) < 2 powi 1024" and n0: "n \<noteq> 0"
  shows "round64 q = Fin (if 0 < q then of_int n * 2 powi (e - 52) else - (of_int n * 2 powi (e - 52)))"
proof -
  have il: "ilog2 \<bar>q\<bar> = e" using lo hi by (rule ilog2_unique)
  have m: "max (ilog2 \<bar>q\<bar>) (- 1022) = e" using il e by simp
  have r: "rne (\<bar>q\<bar> / 2 powi (e - 52)) = n" using n by (rule rne_unique)
  show ?thesis
    using fin n0 by (simp add: round64_unfold [OF q m [symmetric] r [symmetric]])
qed

text \<open>A non-zero exact result is rounded to a zero exactly when it is at most \<open>2\<^sup>-\<^sup>1\<^sup>0\<^sup>7\<^sup>5\<close>.\<close>

lemma round64_zero_iff:
  assumes q: "q \<noteq> 0"
  shows "is_zero (round64 q) \<longleftrightarrow> \<bar>q\<bar> \<le> 2 powi (- 1075)"
proof -
  define e where "e = max (ilog2 \<bar>q\<bar>) (- 1022)"
  define n where "n = rne (\<bar>q\<bar> / 2 powi (e - 52))"
  have qpos: "0 < \<bar>q\<bar>" using q by simp
  have upos: "(0::rat) < 2 powi (e - 52)" by simp
  have x0: "0 \<le> \<bar>q\<bar> / 2 powi (e - 52)" by simp
  have nz: "n = 0 \<longleftrightarrow> \<bar>q\<bar> / 2 powi (e - 52) \<le> 1 / 2"
    unfolding n_def by (rule rne_zero_iff [OF x0])
  have half: "(2::rat) powi (e - 52) / 2 = 2 powi (e - 53)"
    using power_int_add [of "2::rat" "e - 53" 1] by simp
  have nz': "n = 0 \<longleftrightarrow> \<bar>q\<bar> \<le> 2 powi (e - 53)"
    unfolding nz half [symmetric] using upos by (simp add: pos_divide_le_eq)
  have res: "is_zero (round64 q) \<longleftrightarrow> n = 0"
    by (simp add: round64_unfold [OF q e_def n_def])
  show ?thesis
  proof (cases "ilog2 \<bar>q\<bar> \<le> - 1022")
    case True
    then have "e = - 1022" by (simp add: e_def)
    with res nz' show ?thesis by simp
  next
    case False
    then have e: "e = ilog2 \<bar>q\<bar>" and big: "- 1022 < e" by (simp_all add: e_def)
    have le: "2 powi e \<le> \<bar>q\<bar>" unfolding e by (rule ilog2_bounds(1) [OF qpos])
    have "(2::rat) powi (e - 53) < 2 powi e" by (intro power_int_strict_increasing) simp_all
    with le have a: "\<not> \<bar>q\<bar> \<le> 2 powi (e - 53)" by simp
    have "(2::rat) powi (- 1075) < 2 powi e" using big by (intro power_int_strict_increasing) simp_all
    with le have b: "\<not> \<bar>q\<bar> \<le> 2 powi (- 1075)" by simp
    from a b res nz' show ?thesis by simp
  qed
qed

text \<open>A finite non-zero rounded result keeps at least two thirds of the magnitude.\<close>

lemma round64_lower:
  assumes q: "q \<noteq> 0" and r: "round64 q = Fin r" and r0: "r \<noteq> 0"
  shows "\<bar>q\<bar> \<le> 3 / 2 * \<bar>r\<bar>"
proof -
  define e where "e = max (ilog2 \<bar>q\<bar>) (- 1022)"
  define u where "u = (2::rat) powi (e - 52)"
  define n where "n = rne (\<bar>q\<bar> / u)"
  have upos: "0 < u" by (simp add: u_def)
  have n0: "0 \<le> n" unfolding n_def by (rule rne_nonneg) (simp add: u_def)
  have un: "round64 q =
    (if 2 powi 1024 \<le> of_int n * u then (if 0 < q then PosInf else NegInf)
     else if n = 0 then (if 0 < q then Fin 0 else NegZero)
     else Fin (if 0 < q then of_int n * u else - (of_int n * u)))"
    unfolding u_def by (rule round64_unfold [OF q e_def]) (simp add: n_def u_def)
  from r r0 un have nn: "n \<noteq> 0" and rr: "\<bar>r\<bar> = of_int n * u"
    using n0 upos by (auto split: if_splits simp: abs_mult)
  from nn n0 have n1: "(1::rat) \<le> of_int n" by linarith
  have "\<bar>q\<bar> / u \<le> of_int n + 1 / 2" unfolding n_def by (rule rne_upper)
  also have "\<dots> \<le> 3 / 2 * of_int n" using n1 by simp
  finally have "\<bar>q\<bar> \<le> 3 / 2 * of_int n * u" using upos by (simp add: pos_divide_le_eq)
  then show ?thesis by (simp add: rr)
qed

text \<open>A non-zero integer below \<open>2\<^sup>5\<^sup>3\<close> in magnitude is representable.\<close>

lemma round64_int:
  assumes k0: "k \<noteq> 0" and kb: "\<bar>k\<bar> < 2 ^ 53"
  shows "round64 (of_int k) = Fin (of_int k)"
proof -
  define a where "a = \<bar>k\<bar>"
  have apos: "0 < a" using k0 by (simp add: a_def)
  define e where "e = bitlen a - 1"
  have e0: "0 \<le> e" using apos bitlen_eq_zero_iff [of a] bitlen_nonneg [of a] by (simp add: e_def)
  have lo: "(2::rat) powi e \<le> of_int a" unfolding e_def by (rule bitlen_powi_bounds(1) [OF apos])
  have hi: "of_int a < (2::rat) powi (e + 1)"
    using bitlen_powi_bounds(2) [OF apos] by (simp add: e_def)
  have "(2::rat) powi e < 2 powi 53"
  proof -
    have "(of_int a :: rat) < of_int (2 ^ 53)" using kb unfolding a_def by (simp only: of_int_less_iff)
    with lo show ?thesis by simp
  qed
  then have e52: "e \<le> 52"
    using power_int_increasing [of 53 e "2::rat"] by (cases "e \<le> 52") simp_all
  define n where "n = a * 2 ^ nat (52 - e)"
  have sc: "(2::rat) powi (e - 52) * 2 ^ nat (52 - e) = 1"
    using e52 power_int_add [of "2::rat" "e - 52" "52 - e"] by (simp add: power_int_def)
  have nu: "of_int n * (2::rat) powi (e - 52) = of_int a"
    using sc by (simp add: n_def mult.assoc mult.commute [of "2 ^ nat (52 - e)"])
  have absq: "\<bar>of_int k :: rat\<bar> = of_int a" by (simp add: a_def)
  have x: "\<bar>of_int k :: rat\<bar> / 2 powi (e - 52) = of_int n"
    unfolding absq nu [symmetric] by simp
  have npos: "n \<noteq> 0" using apos by (simp add: n_def)
  have fin: "of_int n * (2::rat) powi (e - 52) < 2 powi 1024"
  proof -
    have "(of_int a :: rat) < of_int (2 ^ 53)" using kb unfolding a_def by (simp only: of_int_less_iff)
    also have "\<dots> \<le> 2 powi 1024" by simp
    finally show ?thesis by (simp only: nu)
  qed
  have "round64 (of_int k) =
      Fin (if 0 < (of_int k :: rat) then of_int n * 2 powi (e - 52) else - (of_int n * 2 powi (e - 52)))"
  proof (rule round64_cert)
    show "(of_int k :: rat) \<noteq> 0" using k0 by simp
    show "2 powi e \<le> \<bar>of_int k :: rat\<bar>" unfolding absq by (rule lo)
    show "\<bar>of_int k :: rat\<bar> < 2 powi (e + 1)" unfolding absq by (rule hi)
    show "- 1022 \<le> e" using e0 by simp
    show "\<bar>\<bar>of_int k :: rat\<bar> / 2 powi (e - 52) - of_int n\<bar> < 1 / 2" unfolding x by simp
    show "of_int n * (2::rat) powi (e - 52) < 2 powi 1024" by (rule fin)
    show "n \<noteq> 0" by (rule npos)
  qed
  then show ?thesis unfolding nu by (simp add: a_def)
qed

lemma round64_numeral:
  assumes "(numeral k :: int) < 2 ^ 53"
  shows "round64 (numeral k) = Fin (numeral k)"
  using round64_int [of "numeral k"] assms by simp

subsection \<open>The operators\<close>

lemma js_gt_Fin: "js_gt (Fin a) (Fin b) \<longleftrightarrow> b < a"
  by (simp add: js_gt_def)

lemma js_eq_not_gt:
  assumes "js_eq x y"
  shows "\<not> js_gt x y"
  using assms by (cases x; cases y) (simp_all add: js_eq_def js_gt_def)

lemma js_or_baseline: "js_or (baselineQueryRange ps) (js_mul M (Fin 5)) = spec_baseline_window ps M"
proof (cases "baselineQueryRange ps")
  case None
  then show ?thesis by (simp add: js_or_def spec_baseline_window_def)
next
  case (Some b)
  then show ?thesis by (cases b) (simp_all add: js_or_def spec_baseline_window_def truthy_def)
qed

lemma js_or_multiplier: "js_or (surgeThresholdMultiplier ps) (Fin 2) = spec_multiplier ps"
proof (cases "surgeThresholdMultiplier ps")
  case None
  then show ?thesis by (simp add: js_or_def spec_multiplier_def)
next
  case (Some k)
  then show ?thesis by (cases k) (simp_all add: js_or_def spec_multiplier_def truthy_def)
qed

lemma js_or_truthy:
  assumes "truthy d"
  shows "truthy (js_or p d)"
  using assms by (cases p) (simp_all add: js_or_def)

lemma round64_cert_subnormal:
  assumes q: "q \<noteq> 0"
    and hi: "\<bar>q\<bar> < 2 powi (- 1022)"
    and n: "\<bar>\<bar>q\<bar> / 2 powi (- 1074) - of_int n\<bar> < 1 / 2"
  shows "round64 q =
     (if n = 0 then (if 0 < q then Fin 0 else NegZero)
      else Fin (if 0 < q then of_int n * 2 powi (- 1074) else - (of_int n * 2 powi (- 1074))))"
proof -
  have qpos: "0 < \<bar>q\<bar>" using q by simp
  have "(2::rat) powi ilog2 \<bar>q\<bar> < 2 powi (- 1022)"
    using ilog2_bounds(1) [OF qpos] hi by (rule le_less_trans)
  then have il: "ilog2 \<bar>q\<bar> < - 1022"
    using power_int_increasing [of "- 1022" "ilog2 \<bar>q\<bar>" "2::rat"]
    by (cases "ilog2 \<bar>q\<bar> < - 1022") simp_all
  have m: "max (ilog2 \<bar>q\<bar>) (- 1022) = - 1022" using il by simp
  have r: "rne (\<bar>q\<bar> / 2 powi (- 1022 - 52)) = n" using n by (intro rne_unique) simp
  have "\<bar>q\<bar> / 2 powi (- 1074) < 2 powi (- 1022) / 2 powi (- 1074)"
    using hi by (simp add: divide_strict_right_mono)
  then have "of_int n < 1 / 2 + (2::rat) powi (- 1022) / 2 powi (- 1074)" using n by linarith
  then have "of_int n * (2::rat) powi (- 1074) < 2 powi 1024"
    by (simp add: power_int_minus field_simps)
  then show ?thesis
    by (simp add: round64_unfold [OF q m [symmetric] r [symmetric]])
qed

lemma round64_underflow_pos:
  assumes "0 < q" and "q \<le> 2 powi (- 1075)"
  shows "round64 q = Fin 0"
proof -
  from assms have z: "is_zero (round64 q)" by (simp add: round64_zero_iff)
  have q0: "q \<noteq> 0" using assms(1) by simp
  from z assms(1) show ?thesis
    by (simp add: round64_unfold [OF q0 refl refl] split: if_splits)
qed

subsection \<open>The ratio of the two windows\<close>

lemma truthy_cases:
  assumes "truthy x"
  obtains (PosInf) "x = PosInf" | (NegInf) "x = NegInf" | (Fin) q where "x = Fin q" "q \<noteq> 0"
  using assms by (cases x) (simp_all add: truthy_def)

lemma js_div_Fin:
  assumes "a \<noteq> 0" and "b \<noteq> 0"
  shows "js_div (Fin a) (Fin b) = round64 (a / b)"
  using assms by (simp add: js_div_def)

lemma js_mul_Fin:
  assumes "a \<noteq> 0" and "b \<noteq> 0"
  shows "js_mul (Fin a) (Fin b) = round64 (a * b)"
  using assms by (simp add: js_mul_def)

text \<open>When the ratio of two truthy windows is a zero.\<close>

lemma js_div_zero_iff:
  assumes B: "truthy B" and M: "truthy M"
  shows "is_zero (js_div B M) \<longleftrightarrow>
           \<not> is_inf B \<and> (is_inf M \<or> \<bar>val B / val M\<bar> \<le> 2 powi (- 1075))"
  using B
proof (cases rule: truthy_cases)
  case PosInf
  with M show ?thesis by (cases rule: truthy_cases) (simp_all add: js_div_def inf_of_def)
next
  case NegInf
  with M show ?thesis by (cases rule: truthy_cases) (simp_all add: js_div_def inf_of_def)
next
  case b: (Fin b)
  from M show ?thesis
  proof (cases rule: truthy_cases)
    case PosInf
    with b show ?thesis by (simp add: js_div_def zero_of_def)
  next
    case NegInf
    with b show ?thesis by (simp add: js_div_def zero_of_def)
  next
    case m: (Fin m)
    have "b / m \<noteq> 0" using b m by simp
    from round64_zero_iff [OF this] b m show ?thesis by (simp add: js_div_Fin)
  qed
qed

text \<open>Five times a non-zero double is not a zero.\<close>

lemma js_mul5_truthy:
  assumes M: "truthy M" and d: "is_double M"
  shows "truthy (js_mul M (Fin 5))"
  using M
proof (cases rule: truthy_cases)
  case PosInf
  then show ?thesis by (simp add: js_mul_def truthy_def inf_of_def)
next
  case NegInf
  then show ?thesis by (simp add: js_mul_def truthy_def inf_of_def)
next
  case (Fin m)
  from d Fin have r: "round64 m = Fin m" by (simp add: is_double_def)
  have "\<not> is_zero (round64 m)" using Fin by (simp add: r)
  then have "\<not> \<bar>m\<bar> \<le> 2 powi (- 1075)" using Fin by (simp add: round64_zero_iff)
  then have "\<not> \<bar>m * 5\<bar> \<le> 2 powi (- 1075)" by (simp add: abs_mult)
  moreover have "m * 5 \<noteq> 0" using Fin by simp
  ultimately have "\<not> is_zero (round64 (m * 5))" by (simp add: round64_zero_iff)
  then show ?thesis using Fin by (simp add: js_mul_Fin truthy_def round64_not_NaN)
qed

text \<open>The ratio of the default window to a finite \<open>maxQueryRange\<close> is neither zero nor NaN.\<close>

lemma default_ratio:
  assumes M: "truthy M" and d: "is_double M" and f: "\<not> is_inf M"
  shows "\<not> is_zero (js_div (js_mul M (Fin 5)) M) \<and> js_div (js_mul M (Fin 5)) M \<noteq> NaN"
proof -
  from M f obtain m where m: "M = Fin m" "m \<noteq> 0" by (cases rule: truthy_cases) simp_all
  have t: "truthy (js_mul M (Fin 5))" using M d by (rule js_mul5_truthy)
  have p: "js_mul M (Fin 5) = round64 (m * 5)" using m by (simp add: js_mul_Fin)
  have q0: "m * 5 \<noteq> 0" using m by simp
  from t show ?thesis
  proof (cases rule: truthy_cases)
    case PosInf
    with m show ?thesis by (simp add: js_div_def inf_of_def)
  next
    case NegInf
    with m show ?thesis by (simp add: js_div_def inf_of_def)
  next
    case (Fin r)
    with p have r: "round64 (m * 5) = Fin r" by simp
    from round64_lower [OF q0 r Fin(2)] have "5 * \<bar>m\<bar> \<le> 3 / 2 * \<bar>r\<bar>" by (simp add: abs_mult)
    then have "10 / 3 * \<bar>m\<bar> \<le> \<bar>r\<bar>" by simp
    then have "10 / 3 \<le> \<bar>r\<bar> / \<bar>m\<bar>" using m by (simp add: pos_le_divide_eq)
    then have big: "10 / 3 \<le> \<bar>r / m\<bar>" by (simp add: abs_divide)
    have "(2::rat) powi (- 1075) \<le> 2 powi 0" by (intro power_int_increasing) simp_all
    then have "(2::rat) powi (- 1075) \<le> 1" by simp
    with big have "\<not> \<bar>r / m\<bar> \<le> 2 powi (- 1075)" by linarith
    moreover have "r / m \<noteq> 0" using Fin m by simp
    ultimately have "\<not> is_zero (round64 (r / m))" by (simp add: round64_zero_iff)
    then show ?thesis using Fin m by (simp add: js_div_Fin round64_not_NaN)
  qed
qed

subsection \<open>The rounding error\<close>

lemma ilog2_ge:
  assumes "2 powi a \<le> q"
  shows "a \<le> ilog2 q"
proof (rule ccontr)
  assume "\<not> a \<le> ilog2 q"
  then have "ilog2 q + 1 \<le> a" by simp
  then have "(2::rat) powi (ilog2 q + 1) \<le> 2 powi a" by (intro power_int_increasing) simp_all
  moreover have "0 < q" using assms by (rule less_le_trans [rotated]) simp
  ultimately show False using ilog2_bounds(2) [of q] assms by simp
qed

lemma ilog2_less:
  assumes "0 < q" and "q < 2 powi a"
  shows "ilog2 q < a"
proof (rule ccontr)
  assume "\<not> ilog2 q < a"
  then have "(2::rat) powi a \<le> 2 powi ilog2 q" by (intro power_int_increasing) simp_all
  with ilog2_bounds(1) [OF assms(1)] assms(2) show False by simp
qed

lemma rne_error: "\<bar>of_int (rne x) - x\<bar> \<le> 1 / 2"
proof -
  have a: "of_int \<lfloor>x\<rfloor> \<le> x" "x < of_int \<lfloor>x\<rfloor> + 1" by linarith+
  show ?thesis
  proof (cases "x - of_int \<lfloor>x\<rfloor> < 1 / 2")
    case True
    then have "rne x = \<lfloor>x\<rfloor>" by (simp add: rne_def Let_def)
    with True a show ?thesis by simp
  next
    case False
    then have "rne x = \<lfloor>x\<rfloor> \<and> x - of_int \<lfloor>x\<rfloor> = 1 / 2 \<or> rne x = \<lfloor>x\<rfloor> + 1"
      by (simp add: rne_def Let_def)
    then show ?thesis
    proof
      assume "rne x = \<lfloor>x\<rfloor> \<and> x - of_int \<lfloor>x\<rfloor> = 1 / 2"
      then show ?thesis by simp
    next
      assume "rne x = \<lfloor>x\<rfloor> + 1"
      with False a show ?thesis by simp
    qed
  qed
qed

text \<open>
  In the normal range a rounding is finite, non-zero and within a relative error of
  \<open>2\<^sup>-\<^sup>5\<^sup>3\<close> of the exact result.
\<close>

lemma round64_normal:
  assumes lo: "2 powi (- 1022) \<le> \<bar>q\<bar>" and hi: "\<bar>q\<bar> < 2 powi 1023"
  obtains r where "round64 q = Fin r" and "\<bar>r - q\<bar> \<le> \<bar>q\<bar> * 2 powi (- 53)" and "r \<noteq> 0"
proof -
  have qpos: "0 < \<bar>q\<bar>" using lo by (rule less_le_trans [rotated]) simp
  then have q0: "q \<noteq> 0" by simp
  define e where "e = ilog2 \<bar>q\<bar>"
  define u where "u = (2::rat) powi (e - 52)"
  define n where "n = rne (\<bar>q\<bar> / u)"
  have e_lo: "- 1022 \<le> e" unfolding e_def using lo by (rule ilog2_ge)
  have e_hi: "e < 1023" unfolding e_def using qpos hi by (rule ilog2_less)
  have m: "e = max (ilog2 \<bar>q\<bar>) (- 1022)" using e_lo by (simp add: e_def)
  have upos: "0 < u" by (simp add: u_def)
  have b1: "2 powi e \<le> \<bar>q\<bar>" and b2: "\<bar>q\<bar> < 2 powi (e + 1)"
    unfolding e_def using ilog2_bounds [OF qpos] by simp_all
  have pe: "(2::rat) powi e = 2 ^ 52 * u"
    using power_int_add [of "2::rat" 52 "e - 52"] by (simp add: u_def)
  have pe1: "(2::rat) powi (e + 1) = 2 ^ 53 * u"
    using power_int_add [of "2::rat" 53 "e - 52"] by (simp add: u_def add.commute)
  have x_lo: "2 ^ 52 \<le> \<bar>q\<bar> / u" using b1 upos by (simp add: pe pos_le_divide_eq)
  have x_hi: "\<bar>q\<bar> / u < 2 ^ 53" using b2 upos by (simp add: pe1 pos_divide_less_eq)
  note err = rne_error [of "\<bar>q\<bar> / u", folded n_def]
  have n_lo: "(2::rat) ^ 52 - 1 / 2 \<le> of_int n" using err x_lo by linarith
  have n_hi: "of_int n < (2::rat) ^ 53 + 1 / 2" using err x_hi by linarith
  have "(0::rat) < of_int n" using n_lo by simp
  then have npos: "0 < n" by simp
  have "(of_int n :: rat) < of_int (2 ^ 53 + 1)" using n_hi by simp
  then have "n < 2 ^ 53 + 1" by (simp only: of_int_less_iff)
  then have "(of_int n :: rat) \<le> 2 ^ 53" by simp
  then have "of_int n * u \<le> 2 ^ 53 * u" using upos by simp
  also have "\<dots> = 2 powi (e + 1)" by (simp add: pe1)
  also have "\<dots> \<le> 2 powi 1023" using e_hi by (intro power_int_increasing) simp_all
  also have "\<dots> < (2::rat) powi 1024" by (intro power_int_strict_increasing) simp_all
  finally have fin: "\<not> 2 powi 1024 \<le> of_int n * u" by simp
  define r where "r = (if 0 < q then of_int n * u else - (of_int n * u))"
  have res: "round64 q = Fin r"
    using fin npos round64_unfold [OF q0 m, of n] unfolding n_def u_def r_def by simp
  have rabs: "\<bar>r\<bar> = of_int n * u" using npos upos by (simp add: r_def abs_mult)
  have sgn: "r - q = (if 0 < q then 1 else - 1) * (of_int n * u - \<bar>q\<bar>)"
    using q0 by (simp add: r_def)
  have "\<bar>r - q\<bar> = \<bar>of_int n * u - \<bar>q\<bar>\<bar>" unfolding sgn by (simp add: abs_mult)
  also have "\<dots> = \<bar>of_int n - \<bar>q\<bar> / u\<bar> * u"
  proof -
    have "of_int n * u - \<bar>q\<bar> = (of_int n - \<bar>q\<bar> / u) * u"
      using upos by (simp add: field_simps)
    then show ?thesis using upos by (simp only: abs_mult abs_of_pos)
  qed
  also have "\<dots> \<le> 1 / 2 * u" using err upos by (intro mult_right_mono) simp_all
  also have "\<dots> = 2 powi e * 2 powi (- 53)" by (simp add: pe power_int_minus)
  also have "\<dots> \<le> \<bar>q\<bar> * 2 powi (- 53)" using b1 by (intro mult_right_mono) simp_all
  finally have bound: "\<bar>r - q\<bar> \<le> \<bar>q\<bar> * 2 powi (- 53)" .
  have "r \<noteq> 0" using npos upos by (simp add: r_def)
  with res bound show ?thesis by (rule that)
qed

subsection \<open>Exact quotients\<close>

lemma exact_baseline_value:
  assumes "exact_baseline r b m"
  shows "js_div (Fin r) (js_div (Fin b) (Fin m)) = Fin (r * m / b)"
proof -
  from assms have b: "b \<noteq> 0" and m: "m \<noteq> 0" and r: "r \<noteq> 0"
    and q1: "round64 (b / m) = Fin (b / m)" and q2: "round64 (r / (b / m)) = Fin (r / (b / m))"
    by (simp_all add: exact_baseline_def exact_quotient_def)
  have "js_div (Fin b) (Fin m) = Fin (b / m)" using b m q1 by (simp add: js_div_Fin)
  moreover have "js_div (Fin r) (Fin (b / m)) = Fin (r / (b / m))"
    using r b m q2 by (simp add: js_div_Fin)
  ultimately show ?thesis by simp
qed

text \<open>
  In the normal range the baseline count is within a relative error of \<open>2\<^sup>-\<^sup>5\<^sup>1\<close> of the
  exact \<open>r * m / b\<close>.
\<close>

lemma baseline_error:
  assumes "normal_baseline r b m"
  obtains c where "js_div (Fin r) (js_div (Fin b) (Fin m)) = Fin c"
    and "\<bar>c - r * m / b\<bar> \<le> \<bar>r * m / b\<bar> * 2 powi (- 51)"
proof -
  define eps where "eps = (2::rat) powi (- 53)"
  have eps: "0 < eps" "eps \<le> 1 / 2" and eps4: "4 * eps = 2 powi (- 51)"
    by (simp_all add: eps_def power_int_minus)
  from assms have nq: "normal_quotient b m" by (simp add: normal_baseline_def)
  then have m0: "m \<noteq> 0" and lo1: "2 powi (- 1022) \<le> \<bar>b / m\<bar>" and hi1: "\<bar>b / m\<bar> < 2 powi 1023"
    by (simp_all add: normal_quotient_def)
  have "(0::rat) < 2 powi (- 1022)" by simp
  from this lo1 have "0 < \<bar>b / m\<bar>" by (rule less_le_trans)
  then have b0: "b \<noteq> 0" by auto
  define p where "p = b / m"
  have p0: "p \<noteq> 0" using b0 m0 by (simp add: p_def)
  obtain p' where rp: "round64 p = Fin p'" and ep: "\<bar>p' - p\<bar> \<le> \<bar>p\<bar> * eps" and p'0: "p' \<noteq> 0"
    using round64_normal [OF lo1 hi1] unfolding p_def eps_def by blast
  have ratio: "js_div (Fin b) (Fin m) = Fin p'"
    using b0 m0 rp by (simp add: js_div_Fin p_def)
  from assms have nq2: "normal_quotient r p'" by (simp add: normal_baseline_def ratio)
  then have lo2: "2 powi (- 1022) \<le> \<bar>r / p'\<bar>" and hi2: "\<bar>r / p'\<bar> < 2 powi 1023"
    by (simp_all add: normal_quotient_def)
  have "(0::rat) < 2 powi (- 1022)" by simp
  from this lo2 have "0 < \<bar>r / p'\<bar>" by (rule less_le_trans)
  then have r0: "r \<noteq> 0" by auto
  obtain c where rc: "round64 (r / p') = Fin c" and ec: "\<bar>c - r / p'\<bar> \<le> \<bar>r / p'\<bar> * eps"
    using round64_normal [OF lo2 hi2] unfolding eps_def by blast
  have res: "js_div (Fin r) (js_div (Fin b) (Fin m)) = Fin c"
    unfolding ratio using r0 p'0 rc by (simp add: js_div_Fin)
  have X: "r * m / b = r / p" using m0 b0 by (simp add: p_def)
  have pp: "0 < \<bar>p\<bar>" "0 < \<bar>p'\<bar>" using p0 p'0 by simp_all
  have half: "\<bar>p\<bar> / 2 \<le> \<bar>p'\<bar>"
  proof -
    have "\<bar>p\<bar> - \<bar>p'\<bar> \<le> \<bar>p' - p\<bar>" by linarith
    also have "\<dots> \<le> \<bar>p\<bar> * eps" by (rule ep)
    also have "\<dots> \<le> \<bar>p\<bar> * (1 / 2)" using eps pp by (intro mult_left_mono) simp_all
    finally show ?thesis by simp
  qed
  have d: "\<bar>r / p' - r / p\<bar> \<le> \<bar>r / p'\<bar> * eps"
  proof -
    have "r / p' - r / p = r / p' * ((p - p') / p)"
      using p0 p'0 by (simp add: field_simps)
    then have e1: "\<bar>r / p' - r / p\<bar> = \<bar>r / p'\<bar> * (\<bar>p' - p\<bar> / \<bar>p\<bar>)"
      by (simp add: abs_mult abs_divide abs_minus_commute)
    have e2: "\<bar>p' - p\<bar> / \<bar>p\<bar> \<le> eps"
      using ep pp by (simp add: pos_divide_le_eq mult.commute)
    have "\<bar>r / p'\<bar> * (\<bar>p' - p\<bar> / \<bar>p\<bar>) \<le> \<bar>r / p'\<bar> * eps"
      using e2 by (intro mult_left_mono) simp_all
    then show ?thesis by (simp only: e1)
  qed
  have q2: "\<bar>r / p'\<bar> \<le> 2 * \<bar>r / p\<bar>"
  proof -
    have "\<bar>r\<bar> / \<bar>p'\<bar> \<le> \<bar>r\<bar> / (\<bar>p\<bar> / 2)"
      using half pp by (intro divide_left_mono) simp_all
    then show ?thesis by (simp add: abs_divide mult.commute)
  qed
  have "\<bar>c - r / p\<bar> \<le> \<bar>c - r / p'\<bar> + \<bar>r / p' - r / p\<bar>" by linarith
  also have "\<dots> \<le> \<bar>r / p'\<bar> * eps + \<bar>r / p'\<bar> * eps" using ec d by (rule add_mono)
  also have "\<dots> = \<bar>r / p'\<bar> * (2 * eps)" by simp
  also have "\<dots> \<le> (2 * \<bar>r / p\<bar>) * (2 * eps)" using q2 eps by (intro mult_right_mono) simp_all
  also have "\<dots> = \<bar>r / p\<bar> * (4 * eps)" by simp
  finally have "\<bar>c - r * m / b\<bar> \<le> \<bar>r * m / b\<bar> * 2 powi (- 51)"
    unfolding X eps4 .
  with res show ?thesis by (rule that)
qed

section \<open>Facts about the rule\<close>

subsection \<open>The paths through the evaluation\<close>

lemma guards_passD:
  assumes "guards_pass ruleConfig req rc ecs ps M dc"
  obtains c bs d where "ruleConfig = Some rc" "config rc = Some c" "bands c = Some bs" "bs \<noteq> []"
    "exitConditions c = Some ecs" "parameters c = Some ps" "maxQueryRange ps = Some M" "truthy M"
    "DataCache req = Some dc" "dbtrAcctId dc = Some d" "d \<noteq> []"
  using assms
  unfolding guards_pass_def no_bands_def no_maxQueryRange_def no_dbtrAcctId_def bands_of_def
    exitConditions_of_def parameters_of_def maxQueryRange_of_def dbtrAcctId_of_def config_of_def
    truthy_def
  by (auto split: option.splits Option.bind_splits)

lemma guard_cases:
  fixes ruleConfig :: "RuleConfig option" and req :: RuleRequest
  obtains
    (noRc) "ruleConfig = None"
  | (noCfg) rc where "ruleConfig = Some rc" "config rc = None"
  | (noBands) rc c where "ruleConfig = Some rc" "config rc = Some c"
      "bands c = None \<or> bands c = Some []"
  | (noEcs) rc c bs where "ruleConfig = Some rc" "config rc = Some c" "bands c = Some bs"
      "bs \<noteq> []" "exitConditions c = None"
  | (noPs) rc c bs ecs where "ruleConfig = Some rc" "config rc = Some c" "bands c = Some bs"
      "bs \<noteq> []" "exitConditions c = Some ecs" "parameters c = None"
  | (noM) rc c bs ecs ps where "ruleConfig = Some rc" "config rc = Some c" "bands c = Some bs"
      "bs \<noteq> []" "exitConditions c = Some ecs" "parameters c = Some ps"
      "maxQueryRange ps = None \<or> (\<exists>M. maxQueryRange ps = Some M \<and> \<not> truthy M)"
  | (noDc) rc c bs ecs ps M where "ruleConfig = Some rc" "config rc = Some c"
      "bands c = Some bs" "bs \<noteq> []" "exitConditions c = Some ecs" "parameters c = Some ps"
      "maxQueryRange ps = Some M" "truthy M" "DataCache req = None"
  | (noD) rc c bs ecs ps M dc where "ruleConfig = Some rc" "config rc = Some c"
      "bands c = Some bs" "bs \<noteq> []" "exitConditions c = Some ecs" "parameters c = Some ps"
      "maxQueryRange ps = Some M" "truthy M" "DataCache req = Some dc"
      "dbtrAcctId dc = None \<or> dbtrAcctId dc = Some []"
  | (ok) rc c bs ecs ps M dc d where "ruleConfig = Some rc" "config rc = Some c"
      "bands c = Some bs" "bs \<noteq> []" "exitConditions c = Some ecs" "parameters c = Some ps"
      "maxQueryRange ps = Some M" "truthy M" "DataCache req = Some dc"
      "dbtrAcctId dc = Some d" "d \<noteq> []"
proof (cases ruleConfig)
  case None
  then show ?thesis by (rule noRc)
next
  case rc: (Some rc)
  show ?thesis
  proof (cases "config rc")
    case None
    with rc show ?thesis by (rule noCfg)
  next
    case c: (Some c)
    show ?thesis
    proof (cases "bands c = None \<or> bands c = Some []")
      case True
      with rc c show ?thesis by (rule noBands)
    next
      case False
      then obtain bs where bs: "bands c = Some bs" "bs \<noteq> []" by (cases "bands c") auto
      show ?thesis
      proof (cases "exitConditions c")
        case None
        with rc c bs show ?thesis by (rule noEcs)
      next
        case ecs: (Some ecs)
        show ?thesis
        proof (cases "parameters c")
          case None
          with rc c bs ecs show ?thesis by (rule noPs)
        next
          case ps: (Some ps)
          show ?thesis
          proof (cases "maxQueryRange ps = None \<or> (\<exists>M. maxQueryRange ps = Some M \<and> \<not> truthy M)")
            case True
            with rc c bs ecs ps show ?thesis by (rule noM)
          next
            case False
            then obtain M where M: "maxQueryRange ps = Some M" "truthy M"
              by (cases "maxQueryRange ps") auto
            show ?thesis
            proof (cases "DataCache req")
              case None
              with rc c bs ecs ps M show ?thesis by (rule noDc)
            next
              case dc: (Some dc)
              show ?thesis
              proof (cases "dbtrAcctId dc = None \<or> dbtrAcctId dc = Some []")
                case True
                with rc c bs ecs ps M dc show ?thesis by (rule noD)
              next
                case False
                then obtain d where "dbtrAcctId dc = Some d" "d \<noteq> []"
                  by (cases "dbtrAcctId dc") auto
                with rc c bs ecs ps M dc show ?thesis by (rule ok)
              qed
            qed
          qed
        qed
      qed
    qed
  qed
qed

lemmas guard_defs = no_bands_def no_maxQueryRange_def no_dbtrAcctId_def bands_of_def
  exitConditions_of_def parameters_of_def maxQueryRange_of_def dbtrAcctId_of_def config_of_def

lemma ht_guard_failure:
  assumes "no_bands ruleConfig \<or> exitConditions_of ruleConfig = None \<or>
           parameters_of ruleConfig = None \<or> no_maxQueryRange ruleConfig \<or> no_dbtrAcctId req"
  shows "fst (handleTransaction rt req determineOutcome ruleRes ruleConfig databaseManager w0) =
           Inl (Error
             (if no_bands ruleConfig
              then ''Invalid config provided - bands not provided or empty''
              else if exitConditions_of ruleConfig = None
              then ''Invalid config provided - exitConditions not provided''
              else if parameters_of ruleConfig = None
              then ''Invalid config provided - parameters not provided''
              else if no_maxQueryRange ruleConfig
              then ''Invalid config provided - maxQueryRange parameter not provided''
              else ''Data Cache does not have required dbtrAcctId'')) \<and>
         issued (snd (handleTransaction rt req determineOutcome ruleRes ruleConfig databaseManager w0)) =
           issued w0"
proof (cases rule: guard_cases [where ruleConfig = ruleConfig and req = req])
  case noRc
  then show ?thesis by (simp add: handleTransaction_def Let_def trace_def guard_defs)
next
  case (noCfg rc)
  then show ?thesis by (simp add: handleTransaction_def Let_def trace_def guard_defs)
next
  case (noBands rc c)
  then show ?thesis by (elim disjE; simp add: handleTransaction_def Let_def trace_def guard_defs)
next
  case (noEcs rc c bs)
  then show ?thesis by (simp add: handleTransaction_def Let_def trace_def guard_defs)
next
  case (noPs rc c bs ecs)
  then show ?thesis by (simp add: handleTransaction_def Let_def trace_def guard_defs)
next
  case (noM rc c bs ecs ps)
  then show ?thesis by (elim disjE exE conjE; simp add: handleTransaction_def Let_def trace_def guard_defs truthy_def)
next
  case (noDc rc c bs ecs ps M)
  then show ?thesis by (simp add: handleTransaction_def Let_def trace_def guard_defs truthy_def)
next
  case (noD rc c bs ecs ps M dc)
  then show ?thesis by (elim disjE exE conjE; simp add: handleTransaction_def Let_def trace_def guard_defs truthy_def)
next
  case (ok rc c bs ecs ps M dc d)
  with assms show ?thesis by (simp add: guard_defs truthy_def)
qed

lemma ht_not_accepted:
  assumes g: "guards_pass ruleConfig req rc ecs ps M dc" and na: "\<not> accepted req"
  shows "fst (handleTransaction rt req determineOutcome ruleRes ruleConfig databaseManager w0) =
           (case find (\<lambda>b. subRuleRef b = ''.x00'') ecs of
              None \<Rightarrow> Inl (Error ''Unsuccessful transaction and no exit condition in config'')
            | Some u \<Rightarrow> Inr (ruleRes\<lparr>reason := reason u, subRuleRef := subRuleRef u\<rparr>))"
    and "issued (snd (handleTransaction rt req determineOutcome ruleRes ruleConfig databaseManager w0)) =
           issued w0"
proof -
  from g obtain c bs d where f: "ruleConfig = Some rc" "config rc = Some c" "bands c = Some bs"
    "bs \<noteq> []" "exitConditions c = Some ecs" "parameters c = Some ps" "maxQueryRange ps = Some M"
    "truthy M" "DataCache req = Some dc" "dbtrAcctId dc = Some d" "d \<noteq> []"
    by (rule guards_passD)
  from na have t: "TxSts (TxInfAndSts (FIToFIPmtSts (transaction req))) \<noteq> ''ACCC''"
    by (simp add: accepted_def)
  show "fst (handleTransaction rt req determineOutcome ruleRes ruleConfig databaseManager w0) =
           (case find (\<lambda>b. subRuleRef b = ''.x00'') ecs of
              None \<Rightarrow> Inl (Error ''Unsuccessful transaction and no exit condition in config'')
            | Some u \<Rightarrow> Inr (ruleRes\<lparr>reason := reason u, subRuleRef := subRuleRef u\<rparr>))"
    using f t by (cases "find (\<lambda>b. subRuleRef b = ''.x00'') ecs")
      (simp_all add: handleTransaction_def Let_def)
  show "issued (snd (handleTransaction rt req determineOutcome ruleRes ruleConfig databaseManager w0)) =
           issued w0"
    using f t by (cases "find (\<lambda>b. subRuleRef b = ''.x00'') ecs")
      (simp_all add: handleTransaction_def Let_def trace_def)
qed

text \<open>The accepted path, up to the answer of the baseline query.\<close>

lemma ht_baseline_rejected:
  assumes g: "guards_pass ruleConfig req rc ecs ps M dc" and a: "accepted req"
    and b: "databaseManager (baseline_query req dc (js_or (baselineQueryRange ps) (js_mul M (Fin 5)))) = Inl r"
  shows "fst (handleTransaction rt req determineOutcome ruleRes ruleConfig databaseManager w0) =
           Inl (Rejected r)"
    and "issued (snd (handleTransaction rt req determineOutcome ruleRes ruleConfig databaseManager w0)) =
           issued w0 @ [baseline_query req dc (js_or (baselineQueryRange ps) (js_mul M (Fin 5)))]"
proof -
  from g obtain c bs d where f: "ruleConfig = Some rc" "config rc = Some c" "bands c = Some bs"
    "bs \<noteq> []" "exitConditions c = Some ecs" "parameters c = Some ps" "maxQueryRange ps = Some M"
    "truthy M" "DataCache req = Some dc" "dbtrAcctId dc = Some d" "d \<noteq> []"
    by (rule guards_passD)
  from a have t: "TxSts (TxInfAndSts (FIToFIPmtSts (transaction req))) = ''ACCC''"
    by (simp add: accepted_def)
  note b' = b [unfolded baseline_query_def]
  show "fst (handleTransaction rt req determineOutcome ruleRes ruleConfig databaseManager w0) =
           Inl (Rejected r)"
    using f t b' by (simp add: handleTransaction_def Let_def)
  show "issued (snd (handleTransaction rt req determineOutcome ruleRes ruleConfig databaseManager w0)) =
           issued w0 @ [baseline_query req dc (js_or (baselineQueryRange ps) (js_mul M (Fin 5)))]"
    using f t b' by (simp add: handleTransaction_def Let_def trace_def issue_def baseline_query_def)
qed

lemma ht_baseline_unusable:
  assumes g: "guards_pass ruleConfig req rc ecs ps M dc" and a: "accepted req"
    and b: "databaseManager (baseline_query req dc (js_or (baselineQueryRange ps) (js_mul M (Fin 5)))) = Inr v"
    and v: "(\<forall>xs. v \<noteq> JArr xs) \<or> v = JArr []"
  shows "fst (handleTransaction rt req determineOutcome ruleRes ruleConfig databaseManager w0) =
           Inl (Error ''Data error: irretrievable baseline transaction history or no transactions found.'')"
    and "issued (snd (handleTransaction rt req determineOutcome ruleRes ruleConfig databaseManager w0)) =
           issued w0 @ [baseline_query req dc (js_or (baselineQueryRange ps) (js_mul M (Fin 5)))]"
proof -
  from g obtain c bs d where f: "ruleConfig = Some rc" "config rc = Some c" "bands c = Some bs"
    "bs \<noteq> []" "exitConditions c = Some ecs" "parameters c = Some ps" "maxQueryRange ps = Some M"
    "truthy M" "DataCache req = Some dc" "dbtrAcctId dc = Some d" "d \<noteq> []"
    by (rule guards_passD)
  from a have t: "TxSts (TxInfAndSts (FIToFIPmtSts (transaction req))) = ''ACCC''"
    by (simp add: accepted_def)
  note b' = b [unfolded baseline_query_def]
  from v have vc: "(case v of JArr (raw # x) \<Rightarrow> P raw | _ \<Rightarrow> Q) = Q" for P :: "jsval \<Rightarrow> 'z" and Q
    by (cases v) (auto split: list.splits)
  show "fst (handleTransaction rt req determineOutcome ruleRes ruleConfig databaseManager w0) =
           Inl (Error ''Data error: irretrievable baseline transaction history or no transactions found.'')"
    using f t b' by (simp add: handleTransaction_def Let_def vc)
  show "issued (snd (handleTransaction rt req determineOutcome ruleRes ruleConfig databaseManager w0)) =
           issued w0 @ [baseline_query req dc (js_or (baselineQueryRange ps) (js_mul M (Fin 5)))]"
    using f t b' by (simp add: handleTransaction_def Let_def vc trace_def issue_def baseline_query_def)
qed

lemma ht_baseline_usable:
  assumes g: "guards_pass ruleConfig req rc ecs ps M dc" and a: "accepted req"
    and b: "databaseManager (baseline_query req dc (js_or (baselineQueryRange ps) (js_mul M (Fin 5)))) =
              Inr (JArr (raw # rest))"
  shows "fst (handleTransaction rt req determineOutcome ruleRes ruleConfig databaseManager w0) =
           (case databaseManager (current_query req dc M) of
              Inl r \<Rightarrow> Inl (Rejected r)
            | Inr v \<Rightarrow>
                (case unwrap rt v of
                   Inl r \<Rightarrow> Inl (Rejected r)
                 | Inr count \<Rightarrow>
                     if nullish count then Inl (Error ''Data error: irretrievable transaction history'')
                     else (case count of
                        JNum n \<Rightarrow>
                          Inr (determineOutcome
                            (if js_gt n
                                 (js_mul (baseline_count rt raw
                                     (js_or (baselineQueryRange ps) (js_mul M (Fin 5))) M)
                                   (js_or (surgeThresholdMultiplier ps) (Fin 2)))
                             then Fin 1 else Fin 0) rc ruleRes)
                      | _ \<Rightarrow> Inl (Error ''Data error: query result type mismatch - expected a number''))))"
    and "issued (snd (handleTransaction rt req determineOutcome ruleRes ruleConfig databaseManager w0)) =
           issued w0 @ [baseline_query req dc (js_or (baselineQueryRange ps) (js_mul M (Fin 5))),
                        current_query req dc M]"
proof -
  from g obtain c bs d where f: "ruleConfig = Some rc" "config rc = Some c" "bands c = Some bs"
    "bs \<noteq> []" "exitConditions c = Some ecs" "parameters c = Some ps" "maxQueryRange ps = Some M"
    "truthy M" "DataCache req = Some dc" "dbtrAcctId dc = Some d" "d \<noteq> []"
    by (rule guards_passD)
  from a have t: "TxSts (TxInfAndSts (FIToFIPmtSts (transaction req))) = ''ACCC''"
    by (simp add: accepted_def)
  note b' = b [unfolded baseline_query_def]
  let ?H = "handleTransaction rt req determineOutcome ruleRes ruleConfig databaseManager w0"
  let ?R = "case databaseManager (current_query req dc M) of
              Inl r \<Rightarrow> Inl (Rejected r)
            | Inr v \<Rightarrow>
                (case unwrap rt v of
                   Inl r \<Rightarrow> Inl (Rejected r)
                 | Inr count \<Rightarrow>
                     if nullish count then Inl (Error ''Data error: irretrievable transaction history'')
                     else (case count of
                        JNum n \<Rightarrow>
                          Inr (determineOutcome
                            (if js_gt n
                                 (js_mul (baseline_count rt raw
                                     (js_or (baselineQueryRange ps) (js_mul M (Fin 5))) M)
                                   (js_or (surgeThresholdMultiplier ps) (Fin 2)))
                             then Fin 1 else Fin 0) rc ruleRes)
                      | _ \<Rightarrow> Inl (Error ''Data error: query result type mismatch - expected a number'')))"
  let ?I = "issued w0 @ [baseline_query req dc (js_or (baselineQueryRange ps) (js_mul M (Fin 5))),
                        current_query req dc M]"
  have both: "fst ?H = ?R \<and> issued (snd ?H) = ?I"
  proof (cases "databaseManager (current_query req dc M)")
    case (Inl r)
    note q = Inl Inl [unfolded current_query_def]
    show ?thesis using f t b' q
      by (simp add: handleTransaction_def Let_def trace_def issue_def baseline_query_def)
        (simp add: current_query_def)
  next
    case (Inr v)
    note q = Inr Inr [unfolded current_query_def]
    show ?thesis
    proof (cases "unwrap rt v")
      case (Inl r)
      show ?thesis using f t b' q Inl
        by (simp add: handleTransaction_def Let_def trace_def issue_def baseline_query_def)
          (simp add: current_query_def)
    next
      case u: (Inr count)
      show ?thesis
      proof (cases count)
        case (JNum n)
        show ?thesis using f t b' q u JNum
          by (simp add: handleTransaction_def Let_def trace_def issue_def baseline_query_def
              baseline_count_def)
            (simp add: current_query_def)
      qed (use f t b' q u in \<open>(simp add: handleTransaction_def Let_def trace_def issue_def
              baseline_query_def, simp add: current_query_def)+\<close>)
    qed
  qed
  from both show "fst ?H = ?R" ..
  from both show "issued (snd ?H) = ?I" ..
qed

text \<open>Either a guard clause is violated or all of them pass.\<close>

lemma guards_pass_or_fail:
  obtains (fail) "no_bands ruleConfig \<or> exitConditions_of ruleConfig = None \<or>
           parameters_of ruleConfig = None \<or> no_maxQueryRange ruleConfig \<or> no_dbtrAcctId req"
  | (pass) rc ecs ps M dc where "guards_pass ruleConfig req rc ecs ps M dc"
proof (cases rule: guard_cases [where ruleConfig = ruleConfig and req = req])
  case (ok rc c bs ecs ps M dc d)
  then have "guards_pass ruleConfig req rc ecs ps M dc"
    by (simp add: guards_pass_def guard_defs truthy_def)
  then show ?thesis by (rule pass)
next
  case noRc
  then have "no_bands ruleConfig" by (simp add: guard_defs)
  then show ?thesis by (intro fail disjI1)
next
  case (noCfg rc)
  then have "no_bands ruleConfig" by (simp add: guard_defs)
  then show ?thesis by (intro fail disjI1)
next
  case (noBands rc c)
  then have "no_bands ruleConfig" by (elim disjE; simp add: guard_defs)
  then show ?thesis by (intro fail disjI1)
next
  case (noEcs rc c bs)
  then have "exitConditions_of ruleConfig = None" by (simp add: guard_defs)
  then show ?thesis by (intro fail disjI2 disjI1)
next
  case (noPs rc c bs ecs)
  then have "parameters_of ruleConfig = None" by (simp add: guard_defs)
  then show ?thesis using fail by blast
next
  case (noM rc c bs ecs ps)
  then have "no_maxQueryRange ruleConfig"
    by (elim disjE exE conjE; simp add: guard_defs truthy_def)
  then show ?thesis using fail by blast
next
  case (noDc rc c bs ecs ps M)
  then have "no_dbtrAcctId req" by (simp add: guard_defs)
  then show ?thesis using fail by blast
next
  case (noD rc c bs ecs ps M dc)
  then have "no_dbtrAcctId req" by (elim disjE; simp add: guard_defs)
  then show ?thesis using fail by blast
qed

subsection \<open>The scenarios of the specification\<close>

lemmas ex_defs = ex_bands_def ex_exits_def ex_parameters_def ex_ruleConfig_def ex_dataCache_def
  ex_request_def ex_db_def ex_unwrap_def ex_runtime_def ex_determineOutcome_def ex_ruleRes_def
  w_init_def scenario_parameters_def scenario_ruleConfig_def scenario_request_def scenario_db_def

lemma scenario_guards:
  "guards_pass (Some scenario_ruleConfig) (scenario_request sts) scenario_ruleConfig ex_exits
     scenario_parameters (Fin 3600) (ex_dataCache ''dbtrAcct_1'')"
  by (simp add: guards_pass_def guard_defs ex_defs)

lemma scenario_accepted: "accepted (scenario_request ''ACCC'')"
  by (simp add: accepted_def ex_defs)

lemma scenario_window:
  "js_or (baselineQueryRange scenario_parameters) (js_mul (Fin 3600) (Fin 5)) = Fin 18000"
  by (simp add: ex_defs js_or_def js_mul_def round64_numeral)

lemma scenario_multiplier: "js_or (surgeThresholdMultiplier scenario_parameters) (Fin 2) = Fin 2"
  by (simp add: ex_defs js_or_def)

lemma scenario_baseline_answer:
  "scenario_db count (baseline_query (scenario_request sts) (ex_dataCache ''dbtrAcct_1'') B) =
     Inr (JArr [JNum (Fin 50)])"
  by (simp add: scenario_db_def ex_db_def baseline_query_def)

lemma scenario_current_answer:
  "scenario_db count (current_query (scenario_request sts) (ex_dataCache ''dbtrAcct_1'') M) =
     Inr (JArr [JArr [count]])"
  by (simp add: scenario_db_def ex_db_def current_query_def)

lemma scenario_unwrap: "unwrap ex_runtime (JArr [JArr [count]]) = Inr count"
  by (simp add: ex_runtime_def ex_unwrap_def)

lemma scenario_baseline_count:
  "baseline_count ex_runtime (JNum (Fin 50)) (Fin 18000) (Fin 3600) = Fin 10"
  by (simp add: baseline_count_def js_div_def round64_numeral)

lemma scenario_threshold: "js_mul (Fin 10) (Fin 2) = Fin 20"
  by (simp add: js_mul_def round64_numeral)

subsection \<open>The scaled configurations\<close>

text \<open>
  The roundings of the scaled configurations, each with its certificate: \<open>31 / 10\<close> and
  \<open>93 / 10\<close> round to the doubles nearest 3.1 and 9.3, \<open>93 / 3.1\<close> rounds to 30 and
  \<open>279 / 9.3\<close> to 29.999999999999996.
\<close>

lemma scaling_ratio_1: "js_div (Fin 31) (Fin 10) = Fin (6980579422424269 / 2251799813685248)"
  using round64_cert [of "31 / 10" 1 6980579422424269] by (simp add: js_div_def)

lemma scaling_quotient_1: "js_div (Fin 93) (Fin (6980579422424269 / 2251799813685248)) = Fin 30"
  using round64_cert [of "93 / (6980579422424269 / 2251799813685248)" 4 8444249301319680]
  by (simp add: js_div_def)

lemma scaling_threshold_1: "js_mul (Fin 30) (Fin 2) = Fin 60"
  by (simp add: js_mul_def round64_numeral)

lemma scaling_ratio_3: "js_div (Fin 93) (Fin 10) = Fin (2617717283409101 / 281474976710656)"
  using round64_cert [of "93 / 10" 3 5235434566818202] by (simp add: js_div_def)

lemma scaling_quotient_3: "js_div (Fin 279) (Fin (2617717283409101 / 281474976710656)) =
    Fin (8444249301319679 / 281474976710656)"
  using round64_cert [of "279 / (2617717283409101 / 281474976710656)" 4 8444249301319679]
  by (simp add: js_div_def)

lemma scaling_threshold_3: "js_mul (Fin (8444249301319679 / 281474976710656)) (Fin 2) =
    Fin (8444249301319679 / 140737488355328)"
  using round64_cert [of "8444249301319679 / 281474976710656 * 2" 5 8444249301319679]
  by (simp add: js_mul_def)

lemma scaling_baseline_1:
  "baseline_count ex_runtime (JNum (Fin (1 * 93))) (Fin (1 * 31)) (Fin 10) = Fin 30"
  by (simp add: baseline_count_def scaling_ratio_1 scaling_quotient_1)

lemma scaling_baseline_3:
  "baseline_count ex_runtime (JNum (Fin (3 * 93))) (Fin (3 * 31)) (Fin 10) =
     Fin (8444249301319679 / 281474976710656)"
  by (simp add: baseline_count_def scaling_ratio_3 scaling_quotient_3)

lemma scaling_guards:
  "guards_pass (Some (scaling_ruleConfig k)) (scenario_request ''ACCC'')
     (scaling_ruleConfig k) ex_exits (scaling_parameters k) (Fin 10) (ex_dataCache ''dbtrAcct_1'')"
  by (simp add: guards_pass_def guard_defs ex_defs scaling_parameters_def scaling_ruleConfig_def)

lemma scaling_window:
  assumes "k \<noteq> 0"
  shows "js_or (baselineQueryRange (scaling_parameters k)) (js_mul (Fin 10) (Fin 5)) = Fin (k * 31)"
  using assms by (simp add: scaling_parameters_def ex_parameters_def js_or_def truthy_def)

lemma scaling_multiplier:
  "js_or (surgeThresholdMultiplier (scaling_parameters k)) (Fin 2) = Fin 2"
  by (simp add: scaling_parameters_def ex_parameters_def js_or_def)

lemma scaling_baseline_answer:
  "scaling_db k (baseline_query (scenario_request ''ACCC'') (ex_dataCache ''dbtrAcct_1'') B) =
      Inr (JArr (JNum (Fin (k * 93)) # []))"
  by (simp add: scaling_db_def ex_db_def baseline_query_def)

lemma scaling_current_answer:
  "scaling_db k (current_query (scenario_request ''ACCC'') (ex_dataCache ''dbtrAcct_1'') M) =
      Inr (JArr [JArr [JNum (Fin 60)]])"
  by (simp add: scaling_db_def ex_db_def current_query_def)

lemma scaling_outcome_1:
  "fst (handleTransaction ex_runtime (scenario_request ''ACCC'') ex_determineOutcome
          ex_ruleRes (Some (scaling_ruleConfig 1)) (scaling_db 1) w_init) =
     Inr \<lparr>subRuleRef = ''.01'', reason = ''No surge''\<rparr>"
proof -
  have w: "js_or (baselineQueryRange (scaling_parameters 1)) (js_mul (Fin 10) (Fin 5)) = Fin 31"
    using scaling_window [of 1] by simp
  have b: "scaling_db 1 (baseline_query (scenario_request ''ACCC'') (ex_dataCache ''dbtrAcct_1'')
      (js_or (baselineQueryRange (scaling_parameters 1)) (js_mul (Fin 10) (Fin 5)))) =
      Inr (JArr (JNum (Fin 93) # []))"
    using scaling_baseline_answer [of 1] by simp
  have bc: "baseline_count ex_runtime (JNum (Fin 93)) (Fin 31) (Fin 10) = Fin 30"
    using scaling_baseline_1 by simp
  have d: "js_gt (Fin 60) (Fin 60) = False" by (simp add: js_gt_def)
  note u = ht_baseline_usable(1) [where databaseManager = "scaling_db 1"
      and rt = ex_runtime and determineOutcome = ex_determineOutcome and ruleRes = ex_ruleRes
      and ?w0.0 = w_init,
      OF scaling_guards scenario_accepted b,
      unfolded w scaling_multiplier bc scaling_threshold_1 d scaling_current_answer]
  show ?thesis
    unfolding u by (simp add: scenario_unwrap d ex_determineOutcome_def ex_ruleRes_def)
qed

lemma scaling_outcome_3:
  "fst (handleTransaction ex_runtime (scenario_request ''ACCC'') ex_determineOutcome
          ex_ruleRes (Some (scaling_ruleConfig 3)) (scaling_db 3) w_init) =
     Inr \<lparr>subRuleRef = ''.02'', reason = ''Surge''\<rparr>"
proof -
  have w: "js_or (baselineQueryRange (scaling_parameters 3)) (js_mul (Fin 10) (Fin 5)) = Fin 93"
    using scaling_window [of 3] by simp
  have b: "scaling_db 3 (baseline_query (scenario_request ''ACCC'') (ex_dataCache ''dbtrAcct_1'')
      (js_or (baselineQueryRange (scaling_parameters 3)) (js_mul (Fin 10) (Fin 5)))) =
      Inr (JArr (JNum (Fin 279) # []))"
    using scaling_baseline_answer [of 3] by simp
  have bc: "baseline_count ex_runtime (JNum (Fin 279)) (Fin 93) (Fin 10) =
      Fin (8444249301319679 / 281474976710656)"
    using scaling_baseline_3 by simp
  have d: "js_gt (Fin 60) (Fin (8444249301319679 / 140737488355328)) = True"
    by (simp add: js_gt_def)
  note u = ht_baseline_usable(1) [where databaseManager = "scaling_db 3"
      and rt = ex_runtime and determineOutcome = ex_determineOutcome and ruleRes = ex_ruleRes
      and ?w0.0 = w_init,
      OF scaling_guards scenario_accepted b,
      unfolded w scaling_multiplier bc scaling_threshold_3 scaling_current_answer]
  show ?thesis
    unfolding u by (simp add: scenario_unwrap d ex_determineOutcome_def ex_ruleRes_def)
qed

section \<open>The claims\<close>

text \<open>
  C1. Every evaluation that reaches the surge decision (the guards pass, the status is
  accepted, the baseline query answers a non-empty array, the current query answers and
  unwraps to a number) returns what the outcome resolver makes of score 1 when
  \<open>currentCount > baselineCount * multiplier\<close> and of score 0 otherwise. The comparison is
  strict: a count equal to the product is no surge, and on finite numbers it is the order
  of their values.
\<close>

theorem C1_surge_decision:
  assumes "guards_pass ruleConfig req rc ecs ps M dc" and "accepted req"
    and "databaseManager (baseline_query req dc (js_or (baselineQueryRange ps) (js_mul M (Fin 5)))) =
           Inr (JArr (raw # rest))"
    and "databaseManager (current_query req dc M) = Inr v"
    and "unwrap rt v = Inr (JNum currentCount)"
  shows "let baselineCount =
               baseline_count rt raw (js_or (baselineQueryRange ps) (js_mul M (Fin 5))) M;
             threshold = js_mul baselineCount (js_or (surgeThresholdMultiplier ps) (Fin 2));
             isSurge = js_gt currentCount threshold
         in fst (handleTransaction rt req determineOutcome ruleRes ruleConfig databaseManager w0) =
              Inr (determineOutcome (if isSurge then Fin 1 else Fin 0) rc ruleRes) \<and>
            (js_eq currentCount threshold \<longrightarrow> \<not> isSurge) \<and>
            (\<forall>a b. currentCount = Fin a \<and> threshold = Fin b \<longrightarrow> (isSurge \<longleftrightarrow> b < a))"
  using ht_baseline_usable(1) [where databaseManager = databaseManager, OF assms(1,2,3),
      of rt determineOutcome ruleRes w0] assms(4,5)
  by (simp add: Let_def js_eq_not_gt js_gt_Fin)

theorem C1_surge_decision_witness:
  "guards_pass (Some scenario_ruleConfig) (scenario_request ''ACCC'') scenario_ruleConfig ex_exits
     scenario_parameters (Fin 3600) (ex_dataCache ''dbtrAcct_1'') \<and>
   accepted (scenario_request ''ACCC'') \<and>
   fst (handleTransaction ex_runtime (scenario_request ''ACCC'') ex_determineOutcome ex_ruleRes
          (Some scenario_ruleConfig) (scenario_db (JNum (Fin 25))) w_init) =
     Inr \<lparr>subRuleRef = ''.02'', reason = ''Surge''\<rparr> \<and>
   fst (handleTransaction ex_runtime (scenario_request ''ACCC'') ex_determineOutcome ex_ruleRes
          (Some scenario_ruleConfig) (scenario_db (JNum (Fin 20))) w_init) =
     Inr \<lparr>subRuleRef = ''.01'', reason = ''No surge''\<rparr>"
proof -
  note g = scenario_guards [of "''ACCC''"]
  have b: "scenario_db c (baseline_query (scenario_request ''ACCC'') (ex_dataCache ''dbtrAcct_1'')
      (js_or (baselineQueryRange scenario_parameters) (js_mul (Fin 3600) (Fin 5)))) =
        Inr (JArr (JNum (Fin 50) # []))" for c
    by (rule scenario_baseline_answer)
  have "fst (handleTransaction ex_runtime (scenario_request ''ACCC'') ex_determineOutcome ex_ruleRes
          (Some scenario_ruleConfig) (scenario_db (JNum (Fin 25))) w_init) =
     Inr \<lparr>subRuleRef = ''.02'', reason = ''Surge''\<rparr>"
    using C1_surge_decision [where databaseManager = "scenario_db (JNum (Fin 25))",
        OF g scenario_accepted b scenario_current_answer scenario_unwrap,
        of ex_determineOutcome ex_ruleRes w_init]
    by (simp add: scenario_window scenario_multiplier scenario_baseline_count scenario_threshold
        js_gt_def ex_determineOutcome_def ex_ruleRes_def)
  moreover have "fst (handleTransaction ex_runtime (scenario_request ''ACCC'') ex_determineOutcome
          ex_ruleRes (Some scenario_ruleConfig) (scenario_db (JNum (Fin 20))) w_init) =
     Inr \<lparr>subRuleRef = ''.01'', reason = ''No surge''\<rparr>"
    using C1_surge_decision [where databaseManager = "scenario_db (JNum (Fin 20))",
        OF g scenario_accepted b scenario_current_answer scenario_unwrap,
        of ex_determineOutcome ex_ruleRes w_init]
    by (simp add: scenario_window scenario_multiplier scenario_baseline_count scenario_threshold
        js_gt_def ex_determineOutcome_def ex_ruleRes_def)
  ultimately show ?thesis using g scenario_accepted by simp
qed

text \<open>
  C2, as amended. With a configured, truthy baseline window \<open>B\<close> the evaluation decides on
  the double-precision quotient \<open>raw / (B / M)\<close>, each division rounded to the nearest
  double. While both divisions stay in the normal range, that quotient is within a relative
  error of \<open>2\<^sup>-\<^sup>5\<^sup>1\<close> of the exact \<open>raw * M / B\<close>, and scaling raw baseline and window by the
  same non-zero factor moves it by at most \<open>2\<^sup>-\<^sup>5\<^sup>0\<close> of that value. Where neither division
  rounds, the quotient is the exact \<open>raw * M / B\<close>: it is then unchanged by such a scaling,
  and additive in the raw baseline.
\<close>

theorem C2_baseline_normalisation:
  assumes "guards_pass ruleConfig req rc ecs ps M dc" and "accepted req"
    and "baselineQueryRange ps = Some B" and "truthy B"
    and "databaseManager (baseline_query req dc B) = Inr (JArr (raw # rest))"
    and "databaseManager (current_query req dc M) = Inr v"
    and "unwrap rt v = Inr (JNum n)"
  shows "fst (handleTransaction rt req determineOutcome ruleRes ruleConfig databaseManager w0) =
           Inr (determineOutcome
             (if js_gt n
                  (js_mul (js_div (ToNumber (coerce rt) raw) (js_div B M))
                     (js_or (surgeThresholdMultiplier ps) (Fin 2)))
              then Fin 1 else Fin 0) rc ruleRes) \<and>
         (\<forall>r b m. normal_baseline r b m \<longrightarrow>
            (\<exists>c. js_div (Fin r) (js_div (Fin b) (Fin m)) = Fin c \<and>
                 \<bar>c - r * m / b\<bar> \<le> \<bar>r * m / b\<bar> * 2 powi (- 51))) \<and>
         (\<forall>r b m k. k \<noteq> 0 \<and> normal_baseline r b m \<and> normal_baseline (k * r) (k * b) m \<longrightarrow>
            \<bar>val (js_div (Fin (k * r)) (js_div (Fin (k * b)) (Fin m))) -
             val (js_div (Fin r) (js_div (Fin b) (Fin m)))\<bar> \<le> \<bar>r * m / b\<bar> * 2 powi (- 50)) \<and>
         (\<forall>r b m. exact_baseline r b m \<longrightarrow>
            js_div (Fin r) (js_div (Fin b) (Fin m)) = Fin (r * m / b)) \<and>
         (\<forall>r b m k. k \<noteq> 0 \<and> exact_baseline r b m \<and> exact_baseline (k * r) (k * b) m \<longrightarrow>
            js_div (Fin (k * r)) (js_div (Fin (k * b)) (Fin m)) =
              js_div (Fin r) (js_div (Fin b) (Fin m))) \<and>
         (\<forall>r r' b m.
            exact_baseline r b m \<and> exact_baseline r' b m \<and> exact_baseline (r + r') b m \<longrightarrow>
            val (js_div (Fin (r + r')) (js_div (Fin b) (Fin m))) =
              val (js_div (Fin r) (js_div (Fin b) (Fin m))) +
              val (js_div (Fin r') (js_div (Fin b) (Fin m))))"
proof (intro conjI allI impI)
  have B: "js_or (baselineQueryRange ps) (js_mul M (Fin 5)) = B"
    using assms(3,4) by (simp add: js_or_def)
  from ht_baseline_usable(1) [where databaseManager = databaseManager,
      OF assms(1,2) assms(5) [folded B], of rt determineOutcome ruleRes w0] assms(6,7)
  show "fst (handleTransaction rt req determineOutcome ruleRes ruleConfig databaseManager w0) =
           Inr (determineOutcome
             (if js_gt n
                  (js_mul (js_div (ToNumber (coerce rt) raw) (js_div B M))
                     (js_or (surgeThresholdMultiplier ps) (Fin 2)))
              then Fin 1 else Fin 0) rc ruleRes)"
    by (simp add: B baseline_count_def)
next
  fix r b m
  assume "normal_baseline r b m"
  then show "\<exists>c. js_div (Fin r) (js_div (Fin b) (Fin m)) = Fin c \<and>
                 \<bar>c - r * m / b\<bar> \<le> \<bar>r * m / b\<bar> * 2 powi (- 51)"
    by (rule baseline_error) blast
next
  fix r b m k :: rat
  assume h: "k \<noteq> 0 \<and> normal_baseline r b m \<and> normal_baseline (k * r) (k * b) m"
  then have k: "k \<noteq> 0" and n1: "normal_baseline r b m"
    and n2: "normal_baseline (k * r) (k * b) m" by blast+
  obtain c where c: "js_div (Fin r) (js_div (Fin b) (Fin m)) = Fin c"
    and ec: "\<bar>c - r * m / b\<bar> \<le> \<bar>r * m / b\<bar> * 2 powi (- 51)"
    using n1 by (rule baseline_error)
  obtain d where d: "js_div (Fin (k * r)) (js_div (Fin (k * b)) (Fin m)) = Fin d"
    and ed': "\<bar>d - k * r * m / (k * b)\<bar> \<le> \<bar>k * r * m / (k * b)\<bar> * 2 powi (- 51)"
    using n2 by (rule baseline_error)
  have same: "k * r * m / (k * b) = r * m / b" using k by simp
  note ed = ed' [unfolded same]
  have two: "(2::rat) powi (- 50) = 2 powi (- 51) + 2 powi (- 51)"
    using power_int_add [of "2::rat" "- 51" 1] by simp
  have tri: "\<bar>d - c\<bar> \<le> \<bar>d - x\<bar> + \<bar>c - x\<bar>" for x :: rat by linarith
  have "\<bar>d - c\<bar> \<le> \<bar>d - r * m / b\<bar> + \<bar>c - r * m / b\<bar>" by (rule tri)
  also have "\<dots> \<le> \<bar>r * m / b\<bar> * 2 powi (- 51) + \<bar>r * m / b\<bar> * 2 powi (- 51)"
    using ed ec by (rule add_mono)
  also have "\<dots> = \<bar>r * m / b\<bar> * 2 powi (- 50)"
    unfolding two by (simp only: distrib_left)
  finally show "\<bar>val (js_div (Fin (k * r)) (js_div (Fin (k * b)) (Fin m))) -
             val (js_div (Fin r) (js_div (Fin b) (Fin m)))\<bar> \<le> \<bar>r * m / b\<bar> * 2 powi (- 50)"
    unfolding c d by simp
next
  fix r b m
  assume "exact_baseline r b m"
  then show "js_div (Fin r) (js_div (Fin b) (Fin m)) = Fin (r * m / b)"
    by (rule exact_baseline_value)
next
  fix r b m k :: rat
  assume h: "k \<noteq> 0 \<and> exact_baseline r b m \<and> exact_baseline (k * r) (k * b) m"
  then have "js_div (Fin (k * r)) (js_div (Fin (k * b)) (Fin m)) = Fin (k * r * m / (k * b))"
    by (simp add: exact_baseline_value)
  moreover have "k * r * m / (k * b) = r * m / b" using h by simp
  ultimately show "js_div (Fin (k * r)) (js_div (Fin (k * b)) (Fin m)) =
              js_div (Fin r) (js_div (Fin b) (Fin m))"
    using h by (simp add: exact_baseline_value)
next
  fix r r' b m :: rat
  assume h: "exact_baseline r b m \<and> exact_baseline r' b m \<and> exact_baseline (r + r') b m"
  then show "val (js_div (Fin (r + r')) (js_div (Fin b) (Fin m))) =
              val (js_div (Fin r) (js_div (Fin b) (Fin m))) +
              val (js_div (Fin r') (js_div (Fin b) (Fin m)))"
    by (simp add: exact_baseline_value add_divide_distrib distrib_right)
qed

text \<open>
  The scenario of the specification with the window 18000 configured: both divisions are
  exact, \<open>18000 / 3600 = 5\<close> and \<open>50 / 5 = 10\<close>, and so are those of the doubled and the
  added raw baselines.
\<close>

theorem C2_baseline_normalisation_witness:
  "guards_pass (Some configured_ruleConfig) (scenario_request ''ACCC'') configured_ruleConfig
     ex_exits configured_parameters (Fin 3600) (ex_dataCache ''dbtrAcct_1'') \<and>
   accepted (scenario_request ''ACCC'') \<and>
   baselineQueryRange configured_parameters = Some (Fin 18000) \<and> truthy (Fin 18000) \<and>
   normal_baseline 50 18000 3600 \<and> normal_baseline (2 * 50) (2 * 18000) 3600 \<and>
   exact_baseline 50 18000 3600 \<and> exact_baseline (2 * 50) (2 * 18000) 3600 \<and>
   exact_baseline 25 18000 3600 \<and> exact_baseline (50 + 25) 18000 3600 \<and>
   fst (handleTransaction ex_runtime (scenario_request ''ACCC'') ex_determineOutcome ex_ruleRes
          (Some configured_ruleConfig) (scenario_db (JNum (Fin 25))) w_init) =
     Inr \<lparr>subRuleRef = ''.02'', reason = ''Surge''\<rparr> \<and>
   (\<exists>c. js_div (Fin 50) (js_div (Fin 18000) (Fin 3600)) = Fin c \<and>
        \<bar>c - 50 * 3600 / 18000\<bar> \<le> \<bar>50 * 3600 / 18000\<bar> * 2 powi (- 51)) \<and>
   \<bar>val (js_div (Fin (2 * 50)) (js_div (Fin (2 * 18000)) (Fin 3600))) -
    val (js_div (Fin 50) (js_div (Fin 18000) (Fin 3600)))\<bar> \<le>
     \<bar>50 * 3600 / 18000\<bar> * 2 powi (- 50) \<and>
   js_div (Fin 50) (js_div (Fin 18000) (Fin 3600)) = Fin 10 \<and>
   js_div (Fin (2 * 50)) (js_div (Fin (2 * 18000)) (Fin 3600)) =
     js_div (Fin 50) (js_div (Fin 18000) (Fin 3600)) \<and>
   val (js_div (Fin (50 + 25)) (js_div (Fin 18000) (Fin 3600))) =
     val (js_div (Fin 50) (js_div (Fin 18000) (Fin 3600))) +
     val (js_div (Fin 25) (js_div (Fin 18000) (Fin 3600)))"
proof -
  have g: "guards_pass (Some configured_ruleConfig) (scenario_request ''ACCC'')
     configured_ruleConfig ex_exits configured_parameters (Fin 3600) (ex_dataCache ''dbtrAcct_1'')"
    by (simp add: guards_pass_def guard_defs ex_defs configured_parameters_def
        configured_ruleConfig_def)
  have B: "baselineQueryRange configured_parameters = Some (Fin 18000)"
    by (simp add: configured_parameters_def ex_parameters_def)
  have t: "truthy (Fin 18000)" by (simp add: truthy_def)
  have k: "js_or (surgeThresholdMultiplier configured_parameters) (Fin 2) = Fin 2"
    by (simp add: configured_parameters_def ex_parameters_def js_or_def)
  have e1: "exact_baseline 50 18000 3600"
    by (simp add: exact_baseline_def exact_quotient_def round64_numeral)
  have e2: "exact_baseline (2 * 50) (2 * 18000) 3600"
    by (simp add: exact_baseline_def exact_quotient_def round64_numeral)
  have e3: "exact_baseline 25 18000 3600"
    by (simp add: exact_baseline_def exact_quotient_def round64_numeral)
  have e4: "exact_baseline (50 + 25) 18000 3600"
    by (simp add: exact_baseline_def exact_quotient_def round64_numeral)
  have nz: "(2::rat) \<noteq> 0" by simp
  have r5: "js_div (Fin 18000) (Fin 3600) = Fin 5" by (simp add: js_div_def round64_numeral)
  have r10: "js_div (Fin 36000) (Fin 3600) = Fin 10" by (simp add: js_div_def round64_numeral)
  have n1: "normal_baseline 50 18000 3600"
    unfolding normal_baseline_def r5 by (simp add: normal_quotient_def)
  have n2: "normal_baseline (2 * 50) (2 * 18000) 3600"
    using r10 by (simp add: normal_baseline_def normal_quotient_def)
  note c = C2_baseline_normalisation [where databaseManager = "scenario_db (JNum (Fin 25))"
      and raw = "JNum (Fin 50)" and rest = "[]" and determineOutcome = ex_determineOutcome
      and ruleRes = ex_ruleRes and ?w0.0 = w_init,
      OF g scenario_accepted B t scenario_baseline_answer scenario_current_answer scenario_unwrap]
  from c n1 have a1: "\<exists>c. js_div (Fin 50) (js_div (Fin 18000) (Fin 3600)) = Fin c \<and>
        \<bar>c - 50 * 3600 / 18000\<bar> \<le> \<bar>50 * 3600 / 18000\<bar> * 2 powi (- 51)"
    by blast
  from c have "(2::rat) \<noteq> 0 \<and> normal_baseline 50 18000 3600 \<and>
      normal_baseline (2 * 50) (2 * 18000) 3600 \<longrightarrow>
    \<bar>val (js_div (Fin (2 * 50)) (js_div (Fin (2 * 18000)) (Fin 3600))) -
    val (js_div (Fin 50) (js_div (Fin 18000) (Fin 3600)))\<bar> \<le>
     \<bar>50 * 3600 / 18000\<bar> * 2 powi (- 50)"
    by blast
  with n1 n2 nz have a2: "\<bar>val (js_div (Fin (2 * 50)) (js_div (Fin (2 * 18000)) (Fin 3600))) -
    val (js_div (Fin 50) (js_div (Fin 18000) (Fin 3600)))\<bar> \<le>
     \<bar>50 * 3600 / 18000\<bar> * 2 powi (- 50)"
    by blast
  from c e1 have v: "js_div (Fin 50) (js_div (Fin 18000) (Fin 3600)) = Fin (50 * 3600 / 18000)"
    by blast
  then have v': "js_div (Fin 50) (js_div (Fin 18000) (Fin 3600)) = Fin 10" by simp
  from c have "(2::rat) \<noteq> 0 \<and> exact_baseline 50 18000 3600 \<and>
      exact_baseline (2 * 50) (2 * 18000) 3600 \<longrightarrow>
    js_div (Fin (2 * 50)) (js_div (Fin (2 * 18000)) (Fin 3600)) =
     js_div (Fin 50) (js_div (Fin 18000) (Fin 3600))"
    by blast
  with e1 e2 nz have s: "js_div (Fin (2 * 50)) (js_div (Fin (2 * 18000)) (Fin 3600)) =
     js_div (Fin 50) (js_div (Fin 18000) (Fin 3600))"
    by blast
  from c e1 e3 e4 have a: "val (js_div (Fin (50 + 25)) (js_div (Fin 18000) (Fin 3600))) =
     val (js_div (Fin 50) (js_div (Fin 18000) (Fin 3600))) +
     val (js_div (Fin 25) (js_div (Fin 18000) (Fin 3600)))"
    by blast
  from c have "fst (handleTransaction ex_runtime (scenario_request ''ACCC'') ex_determineOutcome
          ex_ruleRes (Some configured_ruleConfig) (scenario_db (JNum (Fin 25))) w_init) =
      Inr (ex_determineOutcome
             (if js_gt (Fin 25)
                  (js_mul (js_div (ToNumber (coerce ex_runtime) (JNum (Fin 50)))
                     (js_div (Fin 18000) (Fin 3600)))
                     (js_or (surgeThresholdMultiplier configured_parameters) (Fin 2)))
              then Fin 1 else Fin 0) configured_ruleConfig ex_ruleRes)"
    by blast
  then have r: "fst (handleTransaction ex_runtime (scenario_request ''ACCC'') ex_determineOutcome
          ex_ruleRes (Some configured_ruleConfig) (scenario_db (JNum (Fin 25))) w_init) =
     Inr \<lparr>subRuleRef = ''.02'', reason = ''Surge''\<rparr>"
    unfolding k
    by (simp add: v' scenario_threshold js_gt_def ex_determineOutcome_def ex_ruleRes_def)
  from g scenario_accepted B t n1 n2 e1 e2 e3 e4 r a1 a2 v' s a show ?thesis by blast
qed

text \<open>
  C2, as stated, fails. With \<open>maxQueryRange\<close> 10, a window of 31 and a raw baseline of 93 the
  baseline count is 30, and 60 current transactions against the threshold 60 are no surge.
  Scaling window and raw baseline by 3 (93 and 279) gives a baseline count of
  29.999999999999996, and the same 60 current transactions are a surge.
\<close>

theorem C2_counterexample:
  "baseline_count ex_runtime (JNum (Fin (1 * 93))) (Fin (1 * 31)) (Fin 10) = Fin 30 \<and>
   baseline_count ex_runtime (JNum (Fin (3 * 93))) (Fin (3 * 31)) (Fin 10) =
     Fin (8444249301319679 / 281474976710656) \<and>
   fst (handleTransaction ex_runtime (scenario_request ''ACCC'') ex_determineOutcome ex_ruleRes
          (Some (scaling_ruleConfig 1)) (scaling_db 1) w_init) =
     Inr \<lparr>subRuleRef = ''.01'', reason = ''No surge''\<rparr> \<and>
   fst (handleTransaction ex_runtime (scenario_request ''ACCC'') ex_determineOutcome ex_ruleRes
          (Some (scaling_ruleConfig 3)) (scaling_db 3) w_init) =
     Inr \<lparr>subRuleRef = ''.02'', reason = ''Surge''\<rparr>"
  using scaling_baseline_1 scaling_baseline_3 scaling_outcome_1 scaling_outcome_3 by blast

text \<open>
  C3. When a guard clause is violated (bands missing or empty, exit conditions missing,
  parameters missing, \<open>maxQueryRange\<close> missing or zero, \<open>dbtrAcctId\<close> missing), the
  evaluation fails with the error of the first violated clause, in that order; the five
  errors are distinct, and no query has been issued.
\<close>

theorem C3_guards_fail_fast:
  assumes "no_bands ruleConfig \<or> exitConditions_of ruleConfig = None \<or>
           parameters_of ruleConfig = None \<or> no_maxQueryRange ruleConfig \<or> no_dbtrAcctId req"
  shows "fst (handleTransaction rt req determineOutcome ruleRes ruleConfig databaseManager w0) =
           Inl (Error
             (if no_bands ruleConfig
              then ''Invalid config provided - bands not provided or empty''
              else if exitConditions_of ruleConfig = None
              then ''Invalid config provided - exitConditions not provided''
              else if parameters_of ruleConfig = None
              then ''Invalid config provided - parameters not provided''
              else if no_maxQueryRange ruleConfig
              then ''Invalid config provided - maxQueryRange parameter not provided''
              else ''Data Cache does not have required dbtrAcctId'')) \<and>
         issued (snd (handleTransaction rt req determineOutcome ruleRes ruleConfig databaseManager w0)) =
           issued w0 \<and>
         distinct
           [''Invalid config provided - bands not provided or empty'',
            ''Invalid config provided - exitConditions not provided'',
            ''Invalid config provided - parameters not provided'',
            ''Invalid config provided - maxQueryRange parameter not provided'',
            ''Data Cache does not have required dbtrAcctId'']"
proof -
  have "distinct
           [''Invalid config provided - bands not provided or empty'',
            ''Invalid config provided - exitConditions not provided'',
            ''Invalid config provided - parameters not provided'',
            ''Invalid config provided - maxQueryRange parameter not provided'',
            ''Data Cache does not have required dbtrAcctId'']"
    by simp
  with ht_guard_failure [OF assms, of rt determineOutcome ruleRes databaseManager w0]
  show ?thesis by (simp only: simp_thms)
qed

theorem C3_guards_fail_fast_witness:
  "(no_bands (Some (ex_ruleConfig (Some ex_bands) None None)) \<or>
    exitConditions_of (Some (ex_ruleConfig (Some ex_bands) None None)) = None \<or>
    parameters_of (Some (ex_ruleConfig (Some ex_bands) None None)) = None \<or>
    no_maxQueryRange (Some (ex_ruleConfig (Some ex_bands) None None)) \<or>
    no_dbtrAcctId (scenario_request ''ACCC'')) \<and>
   fst (handleTransaction ex_runtime (scenario_request ''ACCC'') ex_determineOutcome ex_ruleRes
          (Some (ex_ruleConfig (Some ex_bands) None None)) (scenario_db (JNum (Fin 25))) w_init) =
     Inl (Error ''Invalid config provided - exitConditions not provided'') \<and>
   issued (snd (handleTransaction ex_runtime (scenario_request ''ACCC'') ex_determineOutcome
          ex_ruleRes (Some (ex_ruleConfig (Some ex_bands) None None))
          (scenario_db (JNum (Fin 25))) w_init)) = []"
proof -
  have e: "exitConditions_of (Some (ex_ruleConfig (Some ex_bands) None None)) = None"
    by (simp add: guard_defs ex_defs)
  have b: "\<not> no_bands (Some (ex_ruleConfig (Some ex_bands) None None))"
    by (simp add: guard_defs ex_defs)
  have h: "no_bands (Some (ex_ruleConfig (Some ex_bands) None None)) \<or>
    exitConditions_of (Some (ex_ruleConfig (Some ex_bands) None None)) = None \<or>
    parameters_of (Some (ex_ruleConfig (Some ex_bands) None None)) = None \<or>
    no_maxQueryRange (Some (ex_ruleConfig (Some ex_bands) None None)) \<or>
    no_dbtrAcctId (scenario_request ''ACCC'')"
    using e by simp
  show ?thesis
    using C3_guards_fail_fast [OF h, of ex_runtime ex_determineOutcome ex_ruleRes
        "scenario_db (JNum (Fin 25))" w_init] e b
    by (simp add: w_init_def)
qed

text \<open>
  C4, as amended. When the guards pass, the status is not the accepted code and the
  configuration has an exit condition with reference \<open>.x00\<close> (\<open>u\<close>, the first one), the
  evaluation returns the partial result with \<open>reason\<close> and \<open>subRuleRef\<close> replaced by
  those of \<open>u\<close>, every other field as it was, and issues no query.
\<close>

theorem C4_early_exit:
  assumes "guards_pass ruleConfig req rc ecs ps M dc" and "\<not> accepted req"
    and "find (\<lambda>b. subRuleRef b = ''.x00'') ecs = Some u"
  shows "fst (handleTransaction rt req determineOutcome ruleRes ruleConfig databaseManager w0) =
           Inr (ruleRes\<lparr>reason := reason u, subRuleRef := subRuleRef u\<rparr>) \<and>
         subRuleRef u = ''.x00'' \<and> u \<in> set ecs \<and>
         OutcomeResult.more (ruleRes\<lparr>reason := reason u, subRuleRef := subRuleRef u\<rparr>) =
           OutcomeResult.more ruleRes \<and>
         issued (snd (handleTransaction rt req determineOutcome ruleRes ruleConfig databaseManager w0)) =
           issued w0"
proof -
  from assms(3) have "subRuleRef u = ''.x00''" "u \<in> set ecs"
    by (auto simp: find_Some_iff)
  with ht_not_accepted [OF assms(1,2), of rt determineOutcome ruleRes databaseManager w0] assms(3)
  show ?thesis by simp
qed

theorem C4_early_exit_witness:
  "guards_pass (Some scenario_ruleConfig) (scenario_request ''RJCT'') scenario_ruleConfig ex_exits
     scenario_parameters (Fin 3600) (ex_dataCache ''dbtrAcct_1'') \<and>
   \<not> accepted (scenario_request ''RJCT'') \<and>
   fst (handleTransaction ex_runtime (scenario_request ''RJCT'') ex_determineOutcome ex_ruleRes
          (Some scenario_ruleConfig) (scenario_db (JNum (Fin 25))) w_init) =
     Inr \<lparr>subRuleRef = ''.x00'', reason = ''Unsuccessful''\<rparr> \<and>
   issued (snd (handleTransaction ex_runtime (scenario_request ''RJCT'') ex_determineOutcome
          ex_ruleRes (Some scenario_ruleConfig) (scenario_db (JNum (Fin 25))) w_init)) = []"
proof -
  have n: "\<not> accepted (scenario_request ''RJCT'')" by (simp add: accepted_def ex_defs)
  have f: "find (\<lambda>b. subRuleRef b = ''.x00'') ex_exits =
      Some \<lparr>subRuleRef = ''.x00'', reason = ''Unsuccessful''\<rparr>"
    by (simp add: ex_exits_def)
  show ?thesis
    using C4_early_exit [OF scenario_guards n f, of ex_runtime ex_determineOutcome ex_ruleRes
        "scenario_db (JNum (Fin 25))" w_init] scenario_guards [of "''RJCT''"] n
    by (simp add: ex_ruleRes_def w_init_def)
qed

text \<open>
  C4, as stated, fails: a rejected transaction whose configuration has the \<open>.x00\<close> exit
  condition but no bands is not answered with the exit condition; the first guard clause
  throws.
\<close>

theorem C4_counterexample:
  "\<not> accepted (scenario_request ''RJCT'') \<and>
   exitConditions_of (Some (ex_ruleConfig (Some []) (Some ex_exits) (Some scenario_parameters))) =
     Some ex_exits \<and>
   \<lparr>subRuleRef = ''.x00'', reason = ''Unsuccessful''\<rparr> \<in> set ex_exits \<and>
   fst (handleTransaction ex_runtime (scenario_request ''RJCT'') ex_determineOutcome ex_ruleRes
          (Some (ex_ruleConfig (Some []) (Some ex_exits) (Some scenario_parameters)))
          (scenario_db (JNum (Fin 25))) w_init) =
     Inl (Error ''Invalid config provided - bands not provided or empty'')"
proof -
  have n: "\<not> accepted (scenario_request ''RJCT'')" by (simp add: accepted_def ex_defs)
  have b: "no_bands (Some (ex_ruleConfig (Some []) (Some ex_exits) (Some scenario_parameters)))"
    by (simp add: guard_defs ex_defs)
  then have h: "no_bands (Some (ex_ruleConfig (Some []) (Some ex_exits) (Some scenario_parameters))) \<or>
    exitConditions_of (Some (ex_ruleConfig (Some []) (Some ex_exits) (Some scenario_parameters))) = None \<or>
    parameters_of (Some (ex_ruleConfig (Some []) (Some ex_exits) (Some scenario_parameters))) = None \<or>
    no_maxQueryRange (Some (ex_ruleConfig (Some []) (Some ex_exits) (Some scenario_parameters))) \<or>
    no_dbtrAcctId (scenario_request ''RJCT'')"
    by simp
  have e: "exitConditions_of (Some (ex_ruleConfig (Some []) (Some ex_exits) (Some scenario_parameters))) =
     Some ex_exits"
    by (simp add: guard_defs ex_ruleConfig_def)
  have m: "\<lparr>subRuleRef = ''.x00'', reason = ''Unsuccessful''\<rparr> \<in> set ex_exits"
    by (simp add: ex_exits_def)
  show ?thesis
    using ht_guard_failure [OF h, of ex_runtime ex_determineOutcome ex_ruleRes
        "scenario_db (JNum (Fin 25))" w_init] n b e m
    by simp
qed

text \<open>
  C5. When the guards pass, the status is not the accepted code and no exit condition has
  the reference \<open>.x00\<close>, the evaluation fails with an error and returns no rule result.
\<close>

theorem C5_no_exit_condition:
  assumes "guards_pass ruleConfig req rc ecs ps M dc" and "\<not> accepted req"
    and "\<forall>b \<in> set ecs. subRuleRef b \<noteq> ''.x00''"
  shows "fst (handleTransaction rt req determineOutcome ruleRes ruleConfig databaseManager w0) =
           Inl (Error ''Unsuccessful transaction and no exit condition in config'')"
proof -
  have "find (\<lambda>b. subRuleRef b = ''.x00'') ecs = None"
    using assms(3) by (simp add: find_None_iff)
  with ht_not_accepted(1) [OF assms(1,2), of rt determineOutcome ruleRes databaseManager w0]
  show ?thesis by simp
qed

theorem C5_no_exit_condition_witness:
  "guards_pass
     (Some (ex_ruleConfig (Some ex_bands) (Some [\<lparr>subRuleRef = ''.x01'', reason = ''Other''\<rparr>])
        (Some scenario_parameters)))
     (scenario_request ''RJCT'')
     (ex_ruleConfig (Some ex_bands) (Some [\<lparr>subRuleRef = ''.x01'', reason = ''Other''\<rparr>])
        (Some scenario_parameters))
     [\<lparr>subRuleRef = ''.x01'', reason = ''Other''\<rparr>] scenario_parameters (Fin 3600)
     (ex_dataCache ''dbtrAcct_1'') \<and>
   \<not> accepted (scenario_request ''RJCT'') \<and>
   subRuleRef \<lparr>subRuleRef = ''.x01'', reason = ''Other''\<rparr> \<noteq> ''.x00'' \<and>
   fst (handleTransaction ex_runtime (scenario_request ''RJCT'') ex_determineOutcome ex_ruleRes
          (Some (ex_ruleConfig (Some ex_bands)
             (Some [\<lparr>subRuleRef = ''.x01'', reason = ''Other''\<rparr>]) (Some scenario_parameters)))
          (scenario_db (JNum (Fin 25))) w_init) =
     Inl (Error ''Unsuccessful transaction and no exit condition in config'')"
proof -
  have g: "guards_pass
     (Some (ex_ruleConfig (Some ex_bands) (Some [\<lparr>subRuleRef = ''.x01'', reason = ''Other''\<rparr>])
        (Some scenario_parameters)))
     (scenario_request ''RJCT'')
     (ex_ruleConfig (Some ex_bands) (Some [\<lparr>subRuleRef = ''.x01'', reason = ''Other''\<rparr>])
        (Some scenario_parameters))
     [\<lparr>subRuleRef = ''.x01'', reason = ''Other''\<rparr>] scenario_parameters (Fin 3600)
     (ex_dataCache ''dbtrAcct_1'')"
    by (simp add: guards_pass_def guard_defs ex_defs)
  have n: "\<not> accepted (scenario_request ''RJCT'')" by (simp add: accepted_def ex_defs)
  have x: "\<forall>b \<in> set [\<lparr>subRuleRef = ''.x01'', reason = ''Other''\<rparr>]. subRuleRef b \<noteq> ''.x00''"
    by simp
  show ?thesis
    using C5_no_exit_condition [OF g n x, of ex_runtime ex_determineOutcome ex_ruleRes
        "scenario_db (JNum (Fin 25))" w_init] g n
    by simp
qed

text \<open>
  C6. On every evaluation that passes the guards and the early-exit check, the baseline
  query is issued over the window the specification names (the configured
  \<open>baselineQueryRange\<close>, or five times \<open>maxQueryRange\<close> when that is absent or falsy), the
  baseline is normalised by that window, and the surge decision uses the multiplier the
  specification names (the configured one, or 2 when that is absent or falsy).
\<close>

theorem C6_defaults:
  assumes "guards_pass ruleConfig req rc ecs ps M dc" and "accepted req"
  shows "(\<exists>later.
            issued (snd (handleTransaction rt req determineOutcome ruleRes ruleConfig
                           databaseManager w0)) =
              issued w0 @ baseline_query req dc (spec_baseline_window ps M) # later) \<and>
         (\<forall>raw rest v n.
            databaseManager (baseline_query req dc (spec_baseline_window ps M)) =
              Inr (JArr (raw # rest)) \<and>
            databaseManager (current_query req dc M) = Inr v \<and> unwrap rt v = Inr (JNum n) \<longrightarrow>
            fst (handleTransaction rt req determineOutcome ruleRes ruleConfig databaseManager w0) =
              Inr (determineOutcome
                (if js_gt n
                     (js_mul
                        (js_div (ToNumber (coerce rt) raw) (js_div (spec_baseline_window ps M) M))
                        (spec_multiplier ps))
                 then Fin 1 else Fin 0) rc ruleRes))"
proof (intro conjI allI impI)
  let ?B = "js_or (baselineQueryRange ps) (js_mul M (Fin 5))"
  let ?H = "handleTransaction rt req determineOutcome ruleRes ruleConfig databaseManager w0"
  have B: "?B = spec_baseline_window ps M" by (rule js_or_baseline)
  show "\<exists>later. issued (snd ?H) = issued w0 @ baseline_query req dc (spec_baseline_window ps M) # later"
  proof (cases "databaseManager (baseline_query req dc ?B)")
    case (Inl r)
    from ht_baseline_rejected(2) [where databaseManager = databaseManager, OF assms Inl,
        of rt determineOutcome ruleRes w0]
    show ?thesis unfolding B by simp
  next
    case (Inr v)
    show ?thesis
    proof (cases "\<exists>raw rest. v = JArr (raw # rest)")
      case True
      then obtain raw rest where v: "v = JArr (raw # rest)" by blast
      from ht_baseline_usable(2) [where databaseManager = databaseManager, OF assms Inr [unfolded v],
          of rt determineOutcome ruleRes w0]
      show ?thesis unfolding B by simp
    next
      case False
      have "(\<forall>xs. v \<noteq> JArr xs) \<or> v = JArr []"
      proof (cases v)
        case (JArr xs)
        with False show ?thesis by (cases xs) simp_all
      qed simp_all
      from ht_baseline_unusable(2) [where databaseManager = databaseManager, OF assms Inr this,
          of rt determineOutcome ruleRes w0]
      show ?thesis unfolding B by simp
    qed
  qed
next
  fix raw rest v n
  assume h: "databaseManager (baseline_query req dc (spec_baseline_window ps M)) =
              Inr (JArr (raw # rest)) \<and>
            databaseManager (current_query req dc M) = Inr v \<and> unwrap rt v = Inr (JNum n)"
  then have b: "databaseManager (baseline_query req dc
      (js_or (baselineQueryRange ps) (js_mul M (Fin 5)))) = Inr (JArr (raw # rest))"
    by (simp add: js_or_baseline)
  from ht_baseline_usable(1) [where databaseManager = databaseManager, OF assms b,
      of rt determineOutcome ruleRes w0] h
  show "fst (handleTransaction rt req determineOutcome ruleRes ruleConfig databaseManager w0) =
              Inr (determineOutcome
                (if js_gt n
                     (js_mul
                        (js_div (ToNumber (coerce rt) raw) (js_div (spec_baseline_window ps M) M))
                        (spec_multiplier ps))
                 then Fin 1 else Fin 0) rc ruleRes)"
    by (simp add: js_or_baseline js_or_multiplier baseline_count_def)
qed

text \<open>The scenario with 15 current transactions: the defaults 18000 and 2 give no surge.\<close>

theorem C6_defaults_witness:
  "guards_pass (Some scenario_ruleConfig) (scenario_request ''ACCC'') scenario_ruleConfig ex_exits
     scenario_parameters (Fin 3600) (ex_dataCache ''dbtrAcct_1'') \<and>
   accepted (scenario_request ''ACCC'') \<and>
   spec_baseline_window scenario_parameters (Fin 3600) = Fin 18000 \<and>
   spec_multiplier scenario_parameters = Fin 2 \<and>
   hd (issued (snd (handleTransaction ex_runtime (scenario_request ''ACCC'') ex_determineOutcome
          ex_ruleRes (Some scenario_ruleConfig) (scenario_db (JNum (Fin 15))) w_init))) =
     baseline_query (scenario_request ''ACCC'') (ex_dataCache ''dbtrAcct_1'') (Fin 18000) \<and>
   fst (handleTransaction ex_runtime (scenario_request ''ACCC'') ex_determineOutcome ex_ruleRes
          (Some scenario_ruleConfig) (scenario_db (JNum (Fin 15))) w_init) =
     Inr \<lparr>subRuleRef = ''.01'', reason = ''No surge''\<rparr>"
proof -
  note g = scenario_guards [of "''ACCC''"]
  have w: "spec_baseline_window scenario_parameters (Fin 3600) = Fin 18000"
    using scenario_window by (simp add: js_or_baseline)
  have k: "spec_multiplier scenario_parameters = Fin 2"
    using scenario_multiplier by (simp add: js_or_multiplier)
  note c = C6_defaults [where databaseManager = "scenario_db (JNum (Fin 15))",
      OF g scenario_accepted, of ex_runtime ex_determineOutcome ex_ruleRes w_init]
  from c have 1: "hd (issued (snd (handleTransaction ex_runtime (scenario_request ''ACCC'')
          ex_determineOutcome ex_ruleRes (Some scenario_ruleConfig)
          (scenario_db (JNum (Fin 15))) w_init))) =
     baseline_query (scenario_request ''ACCC'') (ex_dataCache ''dbtrAcct_1'') (Fin 18000)"
    by (auto simp: w w_init_def)
  from c have "scenario_db (JNum (Fin 15))
        (baseline_query (scenario_request ''ACCC'') (ex_dataCache ''dbtrAcct_1'') (Fin 18000)) =
          Inr (JArr (JNum (Fin 50) # [])) \<and>
       scenario_db (JNum (Fin 15))
        (current_query (scenario_request ''ACCC'') (ex_dataCache ''dbtrAcct_1'') (Fin 3600)) =
          Inr (JArr [JArr [JNum (Fin 15)]]) \<and>
       unwrap ex_runtime (JArr [JArr [JNum (Fin 15)]]) = Inr (JNum (Fin 15)) \<longrightarrow>
     fst (handleTransaction ex_runtime (scenario_request ''ACCC'') ex_determineOutcome ex_ruleRes
          (Some scenario_ruleConfig) (scenario_db (JNum (Fin 15))) w_init) =
       Inr (ex_determineOutcome
          (if js_gt (Fin 15)
               (js_mul (js_div (ToNumber (coerce ex_runtime) (JNum (Fin 50)))
                  (js_div (Fin 18000) (Fin 3600))) (Fin 2))
           then Fin 1 else Fin 0) scenario_ruleConfig ex_ruleRes)"
    unfolding w k by blast
  then have 2: "fst (handleTransaction ex_runtime (scenario_request ''ACCC'') ex_determineOutcome
          ex_ruleRes (Some scenario_ruleConfig) (scenario_db (JNum (Fin 15))) w_init) =
     Inr \<lparr>subRuleRef = ''.01'', reason = ''No surge''\<rparr>"
    using scenario_baseline_count
    by (simp add: scenario_baseline_answer scenario_current_answer scenario_unwrap
        scenario_threshold baseline_count_def js_gt_def ex_determineOutcome_def ex_ruleRes_def)
  from g scenario_accepted w k 1 2 show ?thesis by simp
qed

text \<open>
  C7. When the baseline query answers something that is not an array, or an empty array,
  the evaluation fails with the data error of the baseline and the current-window query
  is never issued. The one-element array holding 0 is not such an answer: the evaluation
  goes on to issue the current-window query and does not end in that error.
\<close>

theorem C7_baseline_unavailable:
  assumes "guards_pass ruleConfig req rc ecs ps M dc" and "accepted req"
    and "databaseManager (baseline_query req dc (js_or (baselineQueryRange ps) (js_mul M (Fin 5)))) =
           Inr v"
  shows "((\<forall>xs. v \<noteq> JArr xs) \<or> v = JArr [] \<longrightarrow>
            fst (handleTransaction rt req determineOutcome ruleRes ruleConfig databaseManager w0) =
              Inl (Error
                ''Data error: irretrievable baseline transaction history or no transactions found.'') \<and>
            issued (snd (handleTransaction rt req determineOutcome ruleRes ruleConfig
                           databaseManager w0)) =
              issued w0 @
                [baseline_query req dc (js_or (baselineQueryRange ps) (js_mul M (Fin 5)))]) \<and>
         (v = JArr [JNum (Fin 0)] \<longrightarrow>
            fst (handleTransaction rt req determineOutcome ruleRes ruleConfig databaseManager w0) \<noteq>
              Inl (Error
                ''Data error: irretrievable baseline transaction history or no transactions found.'') \<and>
            issued (snd (handleTransaction rt req determineOutcome ruleRes ruleConfig
                           databaseManager w0)) =
              issued w0 @
                [baseline_query req dc (js_or (baselineQueryRange ps) (js_mul M (Fin 5))),
                 current_query req dc M])"
proof (intro conjI impI)
  assume v: "(\<forall>xs. v \<noteq> JArr xs) \<or> v = JArr []"
  note u = ht_baseline_unusable [where databaseManager = databaseManager, OF assms v,
      of rt determineOutcome ruleRes w0]
  show "fst (handleTransaction rt req determineOutcome ruleRes ruleConfig databaseManager w0) =
      Inl (Error
        ''Data error: irretrievable baseline transaction history or no transactions found.'')"
    by (rule u(1))
  show "issued (snd (handleTransaction rt req determineOutcome ruleRes ruleConfig databaseManager w0)) =
      issued w0 @ [baseline_query req dc (js_or (baselineQueryRange ps) (js_mul M (Fin 5)))]"
    by (rule u(2))
next
  assume v: "v = JArr [JNum (Fin 0)]"
  note u = ht_baseline_usable [where databaseManager = databaseManager,
      OF assms(1,2) assms(3) [unfolded v], of rt determineOutcome ruleRes w0]
  show "issued (snd (handleTransaction rt req determineOutcome ruleRes ruleConfig databaseManager w0)) =
      issued w0 @ [baseline_query req dc (js_or (baselineQueryRange ps) (js_mul M (Fin 5))),
                   current_query req dc M]"
    by (rule u(2))
  show "fst (handleTransaction rt req determineOutcome ruleRes ruleConfig databaseManager w0) \<noteq>
      Inl (Error
        ''Data error: irretrievable baseline transaction history or no transactions found.'')"
  proof (cases "databaseManager (current_query req dc M)")
    case (Inl r)
    with u(1) show ?thesis by simp
  next
    case q: (Inr a)
    show ?thesis
    proof (cases "unwrap rt a")
      case (Inl r)
      with u(1) q show ?thesis by simp
    next
      case (Inr count)
      with u(1) q show ?thesis by (cases count) simp_all
    qed
  qed
qed

theorem C7_baseline_unavailable_witness:
  "guards_pass (Some scenario_ruleConfig) (scenario_request ''ACCC'') scenario_ruleConfig ex_exits
     scenario_parameters (Fin 3600) (ex_dataCache ''dbtrAcct_1'') \<and>
   accepted (scenario_request ''ACCC'') \<and>
   fst (handleTransaction ex_runtime (scenario_request ''ACCC'') ex_determineOutcome ex_ruleRes
          (Some scenario_ruleConfig) (ex_db (JArr []) (JArr [JArr [JNum (Fin 25)]])) w_init) =
     Inl (Error
       ''Data error: irretrievable baseline transaction history or no transactions found.'') \<and>
   issued (snd (handleTransaction ex_runtime (scenario_request ''ACCC'') ex_determineOutcome
          ex_ruleRes (Some scenario_ruleConfig) (ex_db (JArr []) (JArr [JArr [JNum (Fin 25)]]))
          w_init)) =
     [baseline_query (scenario_request ''ACCC'') (ex_dataCache ''dbtrAcct_1'') (Fin 18000)] \<and>
   issued (snd (handleTransaction ex_runtime (scenario_request ''ACCC'') ex_determineOutcome
          ex_ruleRes (Some scenario_ruleConfig)
          (ex_db (JArr [JNum (Fin 0)]) (JArr [JArr [JNum (Fin 25)]])) w_init)) =
     [baseline_query (scenario_request ''ACCC'') (ex_dataCache ''dbtrAcct_1'') (Fin 18000),
      current_query (scenario_request ''ACCC'') (ex_dataCache ''dbtrAcct_1'') (Fin 3600)]"
proof -
  note g = scenario_guards [of "''ACCC''"]
  have e: "ex_db (JArr []) c (baseline_query (scenario_request ''ACCC'')
      (ex_dataCache ''dbtrAcct_1'')
      (js_or (baselineQueryRange scenario_parameters) (js_mul (Fin 3600) (Fin 5)))) = Inr (JArr [])"
    for c by (simp add: ex_db_def baseline_query_def)
  have z: "ex_db (JArr [JNum (Fin 0)]) c (baseline_query (scenario_request ''ACCC'')
      (ex_dataCache ''dbtrAcct_1'')
      (js_or (baselineQueryRange scenario_parameters) (js_mul (Fin 3600) (Fin 5)))) =
        Inr (JArr [JNum (Fin 0)])"
    for c by (simp add: ex_db_def baseline_query_def)
  show ?thesis
    using C7_baseline_unavailable [where databaseManager = "ex_db (JArr []) (JArr [JArr [JNum (Fin 25)]])",
        OF g scenario_accepted e, of ex_runtime ex_determineOutcome ex_ruleRes w_init]
      C7_baseline_unavailable [where
        databaseManager = "ex_db (JArr [JNum (Fin 0)]) (JArr [JArr [JNum (Fin 25)]])",
        OF g scenario_accepted z, of ex_runtime ex_determineOutcome ex_ruleRes w_init]
      g scenario_accepted
    by (simp add: scenario_window w_init_def)
qed

text \<open>
  The check of the computed baseline (lines 79 to 81) never fires: a quotient is always of
  type number and never null, so no evaluation ends in its error.
\<close>

lemma baseline_type_error_unreachable:
  "fst (handleTransaction rt req determineOutcome ruleRes ruleConfig databaseManager w0) \<noteq>
     Inl (Error ''Data error: invalid baseline count type or null value.'')"
proof (cases rule: guards_pass_or_fail [where ruleConfig = ruleConfig and req = req])
  case fail
  from ht_guard_failure [OF fail, of rt determineOutcome ruleRes databaseManager w0]
  show ?thesis by (simp split: if_splits)
next
  case (pass rc ecs ps M dc)
  show ?thesis
  proof (cases "accepted req")
    case False
    from ht_not_accepted(1) [OF pass False, of rt determineOutcome ruleRes databaseManager w0]
    show ?thesis by (simp split: option.splits)
  next
    case True
    let ?B = "js_or (baselineQueryRange ps) (js_mul M (Fin 5))"
    show ?thesis
    proof (cases "databaseManager (baseline_query req dc ?B)")
      case (Inl r)
      from ht_baseline_rejected(1) [where databaseManager = databaseManager, OF pass True Inl,
          of rt determineOutcome ruleRes w0]
      show ?thesis by simp
    next
      case (Inr v)
      show ?thesis
      proof (cases "\<exists>raw rest. v = JArr (raw # rest)")
        case False
        have "(\<forall>xs. v \<noteq> JArr xs) \<or> v = JArr []"
        proof (cases v)
          case (JArr xs)
          with False show ?thesis by (cases xs) simp_all
        qed simp_all
        from ht_baseline_unusable(1) [where databaseManager = databaseManager, OF pass True Inr this,
            of rt determineOutcome ruleRes w0]
        show ?thesis by simp
      next
        case ex: True
        then obtain raw rest where v: "v = JArr (raw # rest)" by blast
        note u = ht_baseline_usable(1) [where databaseManager = databaseManager,
            OF pass True Inr [unfolded v], of rt determineOutcome ruleRes w0]
        show ?thesis
        proof (cases "databaseManager (current_query req dc M)")
          case (Inl r)
          with u show ?thesis by simp
        next
          case q: (Inr a)
          show ?thesis
          proof (cases "unwrap rt a")
            case (Inl r)
            with u q show ?thesis by simp
          next
            case (Inr count)
            with u q show ?thesis by (cases count) simp_all
          qed
        qed
      qed
    qed
  qed
qed

text \<open>
  C8, at a failing input. The baseline query answers a row object instead of a count, so
  the raw baseline is not a number and the computed baseline is NaN. The evaluation does
  not fail: it issues the current-window query and, \<open>25 > NaN\<close> being false, returns the
  resolver's result for score 0, where the same counts with a numeric baseline of 50 give
  a surge.
\<close>

theorem C8_baseline_nan_passes:
  "baseline_count ex_runtime (JObj [(''length'', JNum (Fin 50))]) (Fin 18000) (Fin 3600) = NaN \<and>
   fst (handleTransaction ex_runtime (scenario_request ''ACCC'') ex_determineOutcome ex_ruleRes
          (Some scenario_ruleConfig)
          (ex_db (JArr [JObj [(''length'', JNum (Fin 50))]]) (JArr [JArr [JNum (Fin 25)]]))
          w_init) =
     Inr \<lparr>subRuleRef = ''.01'', reason = ''No surge''\<rparr> \<and>
   issued (snd (handleTransaction ex_runtime (scenario_request ''ACCC'') ex_determineOutcome
          ex_ruleRes (Some scenario_ruleConfig)
          (ex_db (JArr [JObj [(''length'', JNum (Fin 50))]]) (JArr [JArr [JNum (Fin 25)]]))
          w_init)) =
     [baseline_query (scenario_request ''ACCC'') (ex_dataCache ''dbtrAcct_1'') (Fin 18000),
      current_query (scenario_request ''ACCC'') (ex_dataCache ''dbtrAcct_1'') (Fin 3600)]"
proof -
  note g = scenario_guards [of "''ACCC''"]
  have b: "ex_db (JArr [JObj [(''length'', JNum (Fin 50))]]) c
      (baseline_query (scenario_request ''ACCC'') (ex_dataCache ''dbtrAcct_1'')
        (js_or (baselineQueryRange scenario_parameters) (js_mul (Fin 3600) (Fin 5)))) =
      Inr (JArr (JObj [(''length'', JNum (Fin 50))] # []))"
    for c by (simp add: ex_db_def baseline_query_def)
  have q: "ex_db x (JArr [JArr [JNum (Fin 25)]])
      (current_query (scenario_request ''ACCC'') (ex_dataCache ''dbtrAcct_1'') (Fin 3600)) =
      Inr (JArr [JArr [JNum (Fin 25)]])"
    for x by (simp add: ex_db_def current_query_def)
  have n: "baseline_count ex_runtime (JObj [(''length'', JNum (Fin 50))]) (Fin 18000) (Fin 3600) = NaN"
    by (simp add: baseline_count_def js_div_def)
  note u = ht_baseline_usable [where
      databaseManager = "ex_db (JArr [JObj [(''length'', JNum (Fin 50))]]) (JArr [JArr [JNum (Fin 25)]])",
      OF g scenario_accepted b, of ex_runtime ex_determineOutcome ex_ruleRes w_init]
  have t: "js_gt (Fin 25) (js_mul NaN (Fin 2)) = False"
    by (simp add: js_mul_def js_gt_def)
  from u(1) [unfolded scenario_window scenario_multiplier n t]
  have 1: "fst (handleTransaction ex_runtime (scenario_request ''ACCC'')
          ex_determineOutcome ex_ruleRes (Some scenario_ruleConfig)
          (ex_db (JArr [JObj [(''length'', JNum (Fin 50))]]) (JArr [JArr [JNum (Fin 25)]]))
          w_init) =
     Inr \<lparr>subRuleRef = ''.01'', reason = ''No surge''\<rparr>"
    by (simp add: q scenario_unwrap t ex_determineOutcome_def ex_ruleRes_def)
  from u(2) have 2: "issued (snd (handleTransaction ex_runtime (scenario_request ''ACCC'')
          ex_determineOutcome ex_ruleRes (Some scenario_ruleConfig)
          (ex_db (JArr [JObj [(''length'', JNum (Fin 50))]]) (JArr [JArr [JNum (Fin 25)]]))
          w_init)) =
     [baseline_query (scenario_request ''ACCC'') (ex_dataCache ''dbtrAcct_1'') (Fin 18000),
      current_query (scenario_request ''ACCC'') (ex_dataCache ''dbtrAcct_1'') (Fin 3600)]"
    by (simp add: scenario_window w_init_def)
  from n 1 2 show ?thesis by simp
qed

text \<open>
  C9. Two evaluations that differ only in the value of a present, non-empty \<open>dbtrAcctId\<close>
  end alike: the same result or error, the same queries, the same trace entries.
\<close>

theorem C9_dbtrAcctId_unused:
  assumes "d1 \<noteq> []" and "d2 \<noteq> []"
  shows "handleTransaction rt (req\<lparr>DataCache := Some (dc\<lparr>dbtrAcctId := Some d1\<rparr>)\<rparr>)
           determineOutcome ruleRes ruleConfig databaseManager w0 =
         handleTransaction rt (req\<lparr>DataCache := Some (dc\<lparr>dbtrAcctId := Some d2\<rparr>)\<rparr>)
           determineOutcome ruleRes ruleConfig databaseManager w0"
  unfolding handleTransaction_def
  using assms
  by (simp cong: if_cong option.case_cong)

theorem C9_dbtrAcctId_unused_witness:
  "''dbtrAcct_1'' \<noteq> [] \<and> ''dbtrAcct_2'' \<noteq> [] \<and>
   handleTransaction ex_runtime
     ((scenario_request ''ACCC'')
        \<lparr>DataCache := Some ((ex_dataCache ''dbtrAcct_0'')\<lparr>dbtrAcctId := Some ''dbtrAcct_1''\<rparr>)\<rparr>)
     ex_determineOutcome ex_ruleRes (Some scenario_ruleConfig) (scenario_db (JNum (Fin 25))) w_init =
   handleTransaction ex_runtime
     ((scenario_request ''ACCC'')
        \<lparr>DataCache := Some ((ex_dataCache ''dbtrAcct_0'')\<lparr>dbtrAcctId := Some ''dbtrAcct_2''\<rparr>)\<rparr>)
     ex_determineOutcome ex_ruleRes (Some scenario_ruleConfig) (scenario_db (JNum (Fin 25))) w_init"
proof -
  have a: "''dbtrAcct_1'' \<noteq> []" and b: "''dbtrAcct_2'' \<noteq> []" by simp_all
  from C9_dbtrAcctId_unused [OF a b] a b show ?thesis by blast
qed

text \<open>
  C10, as amended. When the guards pass and \<open>maxQueryRange\<close> is a double, \<open>maxQueryRange\<close>
  and the effective baseline window are neither zero nor NaN. Their ratio, the divisor of
  the baseline, is a zero exactly when the window is finite and either \<open>maxQueryRange\<close> is
  infinite or the exact quotient is at most \<open>2\<^sup>-\<^sup>1\<^sup>0\<^sup>7\<^sup>5\<close>, where the division underflows.
  With the default window and a finite \<open>maxQueryRange\<close> the ratio is neither zero nor NaN.
\<close>

theorem C10_divisor:
  assumes "guards_pass ruleConfig req rc ecs ps M dc" and "is_double M"
  shows "let B = js_or (baselineQueryRange ps) (js_mul M (Fin 5)); ratio = js_div B M
         in truthy M \<and> truthy B \<and>
            (is_zero ratio \<longleftrightarrow>
               \<not> is_inf B \<and> (is_inf M \<or> \<bar>val B / val M\<bar> \<le> 2 powi (- 1075))) \<and>
            (B = js_mul M (Fin 5) \<and> \<not> is_inf M \<longrightarrow> \<not> is_zero ratio \<and> ratio \<noteq> NaN)"
proof -
  from assms(1) have M: "truthy M" by (rule guards_passD)
  have d: "truthy (js_mul M (Fin 5))" using M assms(2) by (rule js_mul5_truthy)
  have B: "truthy (js_or (baselineQueryRange ps) (js_mul M (Fin 5)))"
    using d by (rule js_or_truthy)
  show ?thesis
    unfolding Let_def
  proof (intro conjI impI)
    show "truthy M" by (rule M)
    show "truthy (js_or (baselineQueryRange ps) (js_mul M (Fin 5)))" by (rule B)
    show "is_zero (js_div (js_or (baselineQueryRange ps) (js_mul M (Fin 5))) M) \<longleftrightarrow>
        \<not> is_inf (js_or (baselineQueryRange ps) (js_mul M (Fin 5))) \<and>
        (is_inf M \<or>
         \<bar>val (js_or (baselineQueryRange ps) (js_mul M (Fin 5))) / val M\<bar> \<le> 2 powi (- 1075))"
      by (rule js_div_zero_iff [OF B M])
  next
    assume h: "js_or (baselineQueryRange ps) (js_mul M (Fin 5)) = js_mul M (Fin 5) \<and> \<not> is_inf M"
    then have f: "\<not> is_inf M" and e: "js_or (baselineQueryRange ps) (js_mul M (Fin 5)) = js_mul M (Fin 5)"
      by blast+
    from default_ratio [OF M assms(2) f]
    show "\<not> is_zero (js_div (js_or (baselineQueryRange ps) (js_mul M (Fin 5))) M)"
      unfolding e by blast
    from default_ratio [OF M assms(2) f]
    show "js_div (js_or (baselineQueryRange ps) (js_mul M (Fin 5))) M \<noteq> NaN"
      unfolding e by blast
  qed
qed

theorem C10_divisor_witness:
  "guards_pass (Some scenario_ruleConfig) (scenario_request ''ACCC'') scenario_ruleConfig ex_exits
     scenario_parameters (Fin 3600) (ex_dataCache ''dbtrAcct_1'') \<and>
   is_double (Fin 3600) \<and> truthy (Fin 3600) \<and> truthy (Fin 18000) \<and>
   \<not> is_zero (js_div (Fin 18000) (Fin 3600)) \<and> js_div (Fin 18000) (Fin 3600) \<noteq> NaN"
proof -
  note g = scenario_guards [of "''ACCC''"]
  have d: "is_double (Fin 3600)" by (simp add: is_double_def round64_numeral)
  have m: "js_mul (Fin 3600) (Fin 5) = Fin 18000" by (simp add: js_mul_def round64_numeral)
  have w: "js_or (baselineQueryRange scenario_parameters) (Fin 18000) = Fin 18000"
    using scenario_window unfolding m .
  note c = C10_divisor [OF g d, unfolded Let_def m w]
  from c have t: "truthy (Fin 3600)" "truthy (Fin 18000)" by blast+
  from c have "Fin 18000 = Fin 18000 \<and> \<not> is_inf (Fin 3600) \<longrightarrow>
      \<not> is_zero (js_div (Fin 18000) (Fin 3600)) \<and> js_div (Fin 18000) (Fin 3600) \<noteq> NaN"
    by blast
  then have "\<not> is_zero (js_div (Fin 18000) (Fin 3600)) \<and> js_div (Fin 18000) (Fin 3600) \<noteq> NaN"
    by simp
  with g d t show ?thesis by blast
qed

text \<open>
  C10, as stated, fails. With \<open>maxQueryRange\<close> 2 and a configured baseline window of
  \<^verbatim>\<open>5e-324\<close> both are non-zero doubles and the guards pass, yet their quotient underflows:
  the ratio is 0 and the baseline of a raw count 50 is a division by zero, \<open>+Infinity\<close>.
\<close>

theorem C10_counterexample:
  "guards_pass (Some underflow_ruleConfig) (scenario_request ''ACCC'') underflow_ruleConfig
     ex_exits underflow_parameters (Fin 2) (ex_dataCache ''dbtrAcct_1'') \<and>
   is_double (Fin 2) \<and> is_double (Fin (2 powi (- 1074))) \<and>
   js_or (baselineQueryRange underflow_parameters) (js_mul (Fin 2) (Fin 5)) =
     Fin (2 powi (- 1074)) \<and>
   js_div (Fin (2 powi (- 1074))) (Fin 2) = Fin 0 \<and>
   baseline_count ex_runtime (JNum (Fin 50)) (Fin (2 powi (- 1074))) (Fin 2) = PosInf"
proof -
  have g: "guards_pass (Some underflow_ruleConfig) (scenario_request ''ACCC'') underflow_ruleConfig
     ex_exits underflow_parameters (Fin 2) (ex_dataCache ''dbtrAcct_1'')"
    by (simp add: guards_pass_def guard_defs ex_defs underflow_parameters_def
        underflow_ruleConfig_def)
  have d2: "is_double (Fin 2)" by (simp add: is_double_def round64_numeral)
  have "round64 (2 powi (- 1074)) = Fin (2 powi (- 1074))"
    using round64_cert_subnormal [of "2 powi (- 1074)" 1]
    by (simp add: power_int_minus)
  then have dm: "is_double (Fin (2 powi (- 1074)))" by (simp add: is_double_def)
  have w: "js_or (baselineQueryRange underflow_parameters) (js_mul (Fin 2) (Fin 5)) =
     Fin (2 powi (- 1074))"
    by (simp add: underflow_parameters_def ex_parameters_def js_or_def truthy_def)
  have "(2::rat) powi (- 1074) / 2 = 2 powi (- 1075)"
    using power_int_add [of "2::rat" "- 1075" 1] by simp
  then have "round64 (2 powi (- 1074) / 2) = Fin 0"
    by (simp add: round64_underflow_pos)
  then have r: "js_div (Fin (2 powi (- 1074))) (Fin 2) = Fin 0"
    by (simp add: js_div_Fin)
  have b: "baseline_count ex_runtime (JNum (Fin 50)) (Fin (2 powi (- 1074))) (Fin 2) = PosInf"
    unfolding baseline_count_def r by (simp add: js_div_def inf_of_def)
  from g d2 dm w r b show ?thesis by simp
qed

end
